theory Spec2Isabelle
  imports Main
begin

section \<open>JavaScript strings and arrays\<close>

text \<open>
  Strings are lists of 8-bit characters: the strings whose code units are all below 256,
  a character being its code unit. Among these \<open>trim\<close> strips, from both ends, the
  white space and line terminators of the language: tab, line feed, vertical tab, form
  feed, carriage return, space and the no-break space (160). \<open>toLowerCase\<close> maps the
  capital letters among them, \<open>A\<close>..\<open>Z\<close> and the codes 192..214 and 216..222, to
  the small letter 32 above; no other code unit below 256 has a lower-case mapping.
\<close>

definition isWhiteSpace :: "char \<Rightarrow> bool" where
  "isWhiteSpace c =
     ((9 \<le> (of_char c :: nat) \<and> (of_char c :: nat) \<le> 13) \<or> (of_char c :: nat) = 32 \<or>
      (of_char c :: nat) = 160)"

definition trim :: "string \<Rightarrow> string" where
  "trim s = rev (dropWhile isWhiteSpace (rev (dropWhile isWhiteSpace s)))"

definition lowerChar :: "char \<Rightarrow> char" where
  "lowerChar c =
     (if (65 \<le> (of_char c :: nat) \<and> (of_char c :: nat) \<le> 90) \<or>
         (192 \<le> (of_char c :: nat) \<and> (of_char c :: nat) \<le> 214) \<or>
         (216 \<le> (of_char c :: nat) \<and> (of_char c :: nat) \<le> 222)
      then char_of ((of_char c :: nat) + 32) else c)"

definition toLowerCase :: "string \<Rightarrow> string" where
  "toLowerCase s = map lowerChar s"

text \<open>
  The DOM converts the names of HTML elements and of their attributes in ASCII only:
  \<open>A\<close>..\<open>Z\<close> to lower case when a name is given to \<open>createElement\<close>,
  \<open>setAttribute\<close>, \<open>getAttribute\<close> or \<open>removeAttribute\<close>, and \<open>a\<close>..\<open>z\<close> to
  upper case in \<open>tagName\<close>.
\<close>

definition asciiLowerChar :: "char \<Rightarrow> char" where
  "asciiLowerChar c =
     (if 65 \<le> (of_char c :: nat) \<and> (of_char c :: nat) \<le> 90
      then char_of ((of_char c :: nat) + 32) else c)"

definition asciiLowerCase :: "string \<Rightarrow> string" where
  "asciiLowerCase s = map asciiLowerChar s"

definition asciiUpperChar :: "char \<Rightarrow> char" where
  "asciiUpperChar c =
     (if 97 \<le> (of_char c :: nat) \<and> (of_char c :: nat) \<le> 122
      then char_of ((of_char c :: nat) - 32) else c)"

definition asciiUpperCase :: "string \<Rightarrow> string" where
  "asciiUpperCase s = map asciiUpperChar s"

definition startsWith :: "string \<Rightarrow> string \<Rightarrow> bool" where
  "startsWith s p = (take (length p) s = p)"

fun includesStr :: "string \<Rightarrow> string \<Rightarrow> bool" where
  "includesStr [] t = (t = [])"
| "includesStr (c # s) t = (startsWith (c # s) t \<or> includesStr s t)"

definition substring0 :: "string \<Rightarrow> nat \<Rightarrow> string" where
  \<comment> \<open>\<open>s.substring(0, k)\<close>\<close>
  "substring0 s k = take k s"

text \<open>\<open>xs[i]\<close>: reading an array past its end gives \<open>undefined\<close>.\<close>

definition at :: "'a list \<Rightarrow> nat \<Rightarrow> 'a option" where
  "at xs i = (if i < length xs then Some (xs ! i) else None)"

text \<open>The decimal rendering of an index inside a template literal.\<close>

definition digit :: "nat \<Rightarrow> char" where
  "digit d = char_of (48 + d)"

function showNat :: "nat \<Rightarrow> string" where
  "showNat n = (if n < 10 then [digit n] else showNat (n div 10) @ [digit (n mod 10)])"
  by pat_completeness auto
termination
  by (relation "measure id") auto

declare showNat.simps [simp del]

datatype js_error = TypeError | DOMException string

type_synonym attr_change = "string \<times> string option \<times> string option"

section \<open>DOM nodes\<close>

text \<open>
  A DOM node as the library reads it. The first field of every constructor is the
  identity of the node (the JavaScript object reference); \<open>cloneNode\<close> gives the copy
  fresh identities. An element has its \<open>tagName\<close>, its attributes in document order
  and its child nodes; a text node and a comment have their character data. A reference
  that may be \<open>null\<close> or \<open>undefined\<close> is a \<open>node option\<close>.
\<close>

datatype node =
    Element nat string "(string \<times> string) list" "node list"
  | Text nat string
  | Comment nat string

definition ELEMENT_NODE :: nat where
  "ELEMENT_NODE = 1"

definition TEXT_NODE :: nat where
  "TEXT_NODE = 3"

fun nid :: "node \<Rightarrow> nat" where
  "nid (Element i _ _ _) = i"
| "nid (Text i _) = i"
| "nid (Comment i _) = i"

fun nodeType :: "node \<Rightarrow> nat" where
  "nodeType (Element _ _ _ _) = 1"
| "nodeType (Text _ _) = 3"
| "nodeType (Comment _ _) = 8"

text \<open>\<open>node.tagName\<close> is \<open>undefined\<close> on a node that is not an element.\<close>

fun tagName :: "node \<Rightarrow> string option" where
  "tagName (Element _ t _ _) = Some t"
| "tagName _ = None"

fun attributes :: "node \<Rightarrow> (string \<times> string) list" where
  "attributes (Element _ _ as _) = as"
| "attributes _ = []"

fun childNodes :: "node \<Rightarrow> node list" where
  "childNodes (Element _ _ _ cs) = cs"
| "childNodes _ = []"

text \<open>
  \<open>node.textContent\<close>: the data of a text node or comment; for an element the
  concatenation of the \<open>textContent\<close> of its children, comments left out.
\<close>

fun textContent :: "node \<Rightarrow> string" where
  "textContent (Text _ v) = v"
| "textContent (Comment _ v) = v"
| "textContent (Element _ _ _ cs) =
     concat (map (\<lambda>c. if nodeType c = 8 then [] else textContent c) cs)"

definition getAttribute :: "node \<Rightarrow> string \<Rightarrow> string option" where
  "getAttribute e name = map_of (attributes e) (asciiLowerCase name)"

text \<open>
  \<open>node.cloneNode(true)\<close>: a deep copy. The copy's nodes are new objects: they get
  the identities from the allocation counter on, which is returned advanced.
\<close>

fun cloneNode :: "node \<Rightarrow> nat \<Rightarrow> node \<times> nat"
  and cloneNodes :: "node list \<Rightarrow> nat \<Rightarrow> node list \<times> nat" where
  "cloneNode (Text _ v) n = (Text n v, Suc n)"
| "cloneNode (Comment _ v) n = (Comment n v, Suc n)"
| "cloneNode (Element _ t as cs) n =
     (case cloneNodes cs (Suc n) of (cs', n') \<Rightarrow> (Element n t as cs', n'))"
| "cloneNodes [] n = ([], n)"
| "cloneNodes (c # cs) n =
     (case cloneNode c n of (c', n1) \<Rightarrow>
        (case cloneNodes cs n1 of (cs', n2) \<Rightarrow> (c' # cs', n2)))"

section \<open>NodeUtils\<close>

text \<open>
  \<open>element.dataset.immutable\<close> reads the attribute \<open>data-immutable\<close>, and
  \<open>dataset.processedMedia\<close> reads \<open>data-processed-media\<close>.
\<close>

fun isHeavyElement :: "node option \<Rightarrow> bool" where
  "isHeavyElement None = False"
| "isHeavyElement (Some element) =
     (if nodeType element \<noteq> ELEMENT_NODE then False
      else
        let tag = toLowerCase (case tagName element of Some t \<Rightarrow> t | None \<Rightarrow> [])
        in if tag = ''iframe'' then True
           else if tag = ''video'' then True
           else if tag = ''img'' \<and>
                   (case getAttribute element ''src'' of
                      None \<Rightarrow> False
                    | Some src \<Rightarrow> src \<noteq> [] \<and> (startsWith src ''blob:'' \<or> startsWith src ''data:''))
                then True
           else if getAttribute element ''data-immutable'' = Some ''true'' then True
           else if getAttribute element ''data-processed-media'' = Some ''true'' then True
           else False)"

section \<open>NodeComparator: real DOM nodes\<close>

text \<open>
  \<open>getAttribute("src") || getAttribute("data-original-src")\<close>: the first value unless
  it is \<open>null\<close> or the empty string.
\<close>

definition resourceSrc :: "node \<Rightarrow> string option" where
  "resourceSrc e =
     (case getAttribute e ''src'' of
        Some s \<Rightarrow> if s \<noteq> [] then Some s else getAttribute e ''data-original-src''
      | None \<Rightarrow> getAttribute e ''data-original-src'')"

text \<open>\<open>oldSrc && newSrc && oldSrc === newSrc\<close>, read as a condition.\<close>

definition sameSrc :: "node \<Rightarrow> node \<Rightarrow> bool" where
  "sameSrc a b =
     (case (resourceSrc a, resourceSrc b) of
        (Some x, Some y) \<Rightarrow> x \<noteq> [] \<and> y \<noteq> [] \<and> x = y
      | _ \<Rightarrow> False)"

fun childrenMatch :: "node option \<Rightarrow> node option \<Rightarrow> bool" where
  "childrenMatch (Some oldChild) (Some newChild) =
     (if isHeavyElement (Some oldChild) \<and> isHeavyElement (Some newChild)
      then sameSrc oldChild newChild
      else if nodeType oldChild = nodeType newChild then
        (if nodeType oldChild = TEXT_NODE
         then textContent oldChild = textContent newChild
         else if nodeType oldChild = ELEMENT_NODE \<and> tagName oldChild = tagName newChild
         then trim (textContent oldChild) = trim (textContent newChild)
         else False)
      else False)"
| "childrenMatch _ _ = False"

text \<open>
  \<open>compareAttributes\<close>: both attribute lists go into a \<open>Map\<close> (a later entry of the
  same name overwrites), the keys of both into a \<open>Set\<close> in first-seen order.
\<close>

definition attrMap :: "(string \<times> string) list \<Rightarrow> string \<Rightarrow> string option" where
  "attrMap as = map_of (rev as)"

definition allKeys :: "node \<Rightarrow> node \<Rightarrow> string list" where
  "allKeys oldElement newElement =
     rev (remdups (rev (map fst (attributes oldElement) @ map fst (attributes newElement))))"

definition compareAttributes :: "node \<Rightarrow> node \<Rightarrow> attr_change list" where
  "compareAttributes oldElement newElement =
     map (\<lambda>key. (key, attrMap (attributes oldElement) key, attrMap (attributes newElement) key))
       (filter (\<lambda>key. attrMap (attributes oldElement) key \<noteq> attrMap (attributes newElement) key)
          (allKeys oldElement newElement))"

section \<open>StructuralComparator\<close>

datatype change_kind = Insertion | Deletion

text \<open>The object \<open>{ type, position, count }\<close>; the result \<open>false\<close> is \<open>None\<close>.\<close>

record structural_change =
  kind :: change_kind
  position :: nat
  count :: nat

text \<open>
  The two loops of \<open>testInsertionAtPosition\<close> return \<open>false\<close> at the first pair
  that does not match and the function returns \<open>true\<close> after them: the conjunction of
  the matches over both index ranges.
\<close>

definition testInsertionAtPosition :: "node list \<Rightarrow> node list \<Rightarrow> nat \<Rightarrow> nat \<Rightarrow> bool" where
  "testInsertionAtPosition oldChildren newChildren insertPos insertionCount =
     (list_all (\<lambda>i. childrenMatch (at oldChildren i) (at newChildren i)) [0..<insertPos] \<and>
      list_all (\<lambda>i. childrenMatch (at oldChildren i) (at newChildren (i + insertionCount)))
        [insertPos..<length oldChildren])"

definition testDeletionAtPosition :: "node list \<Rightarrow> node list \<Rightarrow> nat \<Rightarrow> nat \<Rightarrow> bool" where
  "testDeletionAtPosition oldChildren newChildren deletePos deletionCount =
     (list_all (\<lambda>i. childrenMatch (at oldChildren i) (at newChildren i)) [0..<deletePos] \<and>
      list_all (\<lambda>i. childrenMatch (at oldChildren (i + deletionCount)) (at newChildren i))
        [deletePos..<length newChildren])"

text \<open>
  The scans \<open>for (pos = 0; pos <= length; pos++)\<close> return at the first position whose
  test passes: \<open>find\<close> over the ascending positions.
\<close>

definition checkMultipleInsertionsAnywhere ::
  "node list \<Rightarrow> node list \<Rightarrow> nat \<Rightarrow> structural_change option" where
  "checkMultipleInsertionsAnywhere oldChildren newChildren insertionCount =
     map_option (\<lambda>insertPos. \<lparr>kind = Insertion, position = insertPos, count = insertionCount\<rparr>)
       (find (\<lambda>insertPos. testInsertionAtPosition oldChildren newChildren insertPos insertionCount)
          [0..<Suc (length oldChildren)])"

definition checkSimpleInsertionAnywhere :: "node list \<Rightarrow> node list \<Rightarrow> structural_change option" where
  "checkSimpleInsertionAnywhere oldChildren newChildren =
     map_option (\<lambda>insertPos. \<lparr>kind = Insertion, position = insertPos, count = 1\<rparr>)
       (find (\<lambda>insertPos. testInsertionAtPosition oldChildren newChildren insertPos 1)
          [0..<Suc (length oldChildren)])"

definition checkMultipleDeletionsAnywhere ::
  "node list \<Rightarrow> node list \<Rightarrow> nat \<Rightarrow> structural_change option" where
  "checkMultipleDeletionsAnywhere oldChildren newChildren deletionCount =
     map_option (\<lambda>deletePos. \<lparr>kind = Deletion, position = deletePos, count = deletionCount\<rparr>)
       (find (\<lambda>deletePos. testDeletionAtPosition oldChildren newChildren deletePos deletionCount)
          [0..<Suc (length newChildren)])"

definition checkSimpleDeletionAnywhere :: "node list \<Rightarrow> node list \<Rightarrow> structural_change option" where
  "checkSimpleDeletionAnywhere oldChildren newChildren =
     map_option (\<lambda>deletePos. \<lparr>kind = Deletion, position = deletePos, count = 1\<rparr>)
       (find (\<lambda>deletePos. testDeletionAtPosition oldChildren newChildren deletePos 1)
          [0..<Suc (length newChildren)])"

definition isSimpleInsertionOrDeletion :: "node list \<Rightarrow> node list \<Rightarrow> structural_change option" where
  "isSimpleInsertionOrDeletion oldChildren newChildren =
     (if length newChildren = length oldChildren + 1
      then checkSimpleInsertionAnywhere oldChildren newChildren
      else if length oldChildren = length newChildren + 1
      then checkSimpleDeletionAnywhere oldChildren newChildren
      else if length newChildren > length oldChildren \<and>
              length newChildren - length oldChildren \<le> 5
      then checkMultipleInsertionsAnywhere oldChildren newChildren
             (length newChildren - length oldChildren)
      else if length oldChildren > length newChildren \<and>
              length oldChildren - length newChildren \<le> 5
      then checkMultipleDeletionsAnywhere oldChildren newChildren
             (length oldChildren - length newChildren)
      else None)"

text \<open>
  The body of the counting loop of \<open>shouldReplaceAllChildren\<close> for one index-aligned
  pair: whether it executes \<open>differences++\<close>. \<open>textContent?.trim() || ""\<close> is the
  trimmed text, and a string is truthy when it is not empty.
\<close>

definition significantDifference :: "node \<Rightarrow> node \<Rightarrow> bool" where
  "significantDifference oldChild newChild =
     (if nodeType oldChild \<noteq> nodeType newChild then True
      else if nodeType oldChild = ELEMENT_NODE \<and> nodeType newChild = ELEMENT_NODE \<and>
              tagName oldChild \<noteq> tagName newChild then True
      else if nodeType oldChild = TEXT_NODE \<and> nodeType newChild = TEXT_NODE then
        (let oldText = trim (textContent oldChild);
             newText = trim (textContent newChild)
         in oldText \<noteq> [] \<and> newText \<noteq> [] \<and> oldText \<noteq> newText \<and>
            \<not> includesStr oldText (substring0 newText 10) \<and>
            \<not> includesStr newText (substring0 oldText 10))
      else False)"

text \<open>
  \<open>differences > minLength * 0.8\<close> compares two small integers through a double; it
  holds exactly when \<open>5 * differences > 4 * minLength\<close>.
\<close>

definition shouldReplaceAllChildren :: "node list \<Rightarrow> node list \<Rightarrow> bool" where
  "shouldReplaceAllChildren oldChildren newChildren =
     (let lengthDiff = (if length oldChildren \<ge> length newChildren
                        then length oldChildren - length newChildren
                        else length newChildren - length oldChildren)
      in if lengthDiff > 10 then True
         else
           let oldHeavyCount = length (filter (\<lambda>child. isHeavyElement (Some child)) oldChildren);
               newHeavyCount = length (filter (\<lambda>child. isHeavyElement (Some child)) newChildren)
           in if oldHeavyCount > 0 \<or> newHeavyCount > 0 then False
              else
                let minLength = min (length oldChildren) (length newChildren);
                    differences = length (filter
                      (\<lambda>i. significantDifference (oldChildren ! i) (newChildren ! i))
                      [0..<minLength])
                in 5 * differences > 4 * minLength)"

section \<open>Change operations\<close>

text \<open>
  The objects pushed by \<open>Differ\<close> and consumed by \<open>Patcher.applyChanges\<close>. Every
  operation carries the logging \<open>path\<close> first. An attribute change is
  \<open>(name, oldValue, newValue)\<close> with \<open>None\<close> for \<open>undefined\<close>. The
  \<open>child\<close> of a \<open>removeChild\<close> is read from an array by index and may be
  \<open>undefined\<close>.
  \<open>Other t\<close> is an object whose \<open>type\<close> is the string \<open>t\<close>, for the batches
  \<open>applyChanges\<close> may be handed that hold a type it does not know.
\<close>

datatype change =
    Insert string node
  | Remove string node
  | Replace string node node
  | UpdateText string node string string
  | UpdateAttributes string node "attr_change list"
  | InsertChild string node node nat
  | RemoveChild string node "node option" nat
  | Other string

fun ctype :: "change \<Rightarrow> string" where
  "ctype (Insert _ _) = ''insert''"
| "ctype (Remove _ _) = ''remove''"
| "ctype (Replace _ _ _) = ''replace''"
| "ctype (UpdateText _ _ _ _) = ''updateText''"
| "ctype (UpdateAttributes _ _ _) = ''updateAttributes''"
| "ctype (InsertChild _ _ _ _) = ''insertChild''"
| "ctype (RemoveChild _ _ _ _) = ''removeChild''"
| "ctype (Other t) = t"

section \<open>Differ\<close>

text \<open>
  A \<open>for\<close> loop whose body may throw: the loop state is threaded through the
  indices, and an exception ends the loop.
\<close>

fun forEach :: "'i list \<Rightarrow> ('i \<Rightarrow> 's \<Rightarrow> js_error + 's) \<Rightarrow> 's \<Rightarrow> js_error + 's" where
  "forEach [] body s = Inr s"
| "forEach (i # rest) body s =
     (case body i s of Inl e \<Rightarrow> Inl e | Inr s' \<Rightarrow> forEach rest body s')"

lemma forEach_cong [fundef_cong]:
  "xs = ys \<Longrightarrow> s = t \<Longrightarrow> (\<And>i u. i \<in> set ys \<Longrightarrow> f i u = g i u) \<Longrightarrow> forEach xs f s = forEach ys g t"
  by (induction ys arbitrary: xs s t) (auto split: sum.splits)

text \<open>
  \<open>shouldSkipComparison\<close> reads \<open>oldChild.nodeType\<close> and
  \<open>newChild.nodeType\<close>: a \<open>TypeError\<close> when either is \<open>undefined\<close>.
\<close>

fun shouldSkipComparison :: "node option \<Rightarrow> node option \<Rightarrow> js_error + bool" where
  "shouldSkipComparison (Some oldChild) (Some newChild) =
     Inr (if isHeavyElement (Some oldChild) \<and> isHeavyElement (Some newChild) \<and>
             sameSrc oldChild newChild then True
          else if nodeType oldChild = nodeType newChild \<and>
                  tagName oldChild = tagName newChild \<and>
                  trim (textContent oldChild) = trim (textContent newChild) then True
          else False)"
| "shouldSkipComparison _ _ = Inl TypeError"

text \<open>The template literal \<open>`${path}[${i}]`\<close>.\<close>

definition indexPath :: "string \<Rightarrow> nat \<Rightarrow> string" where
  "indexPath path i = path @ ''['' @ showNat i @ '']''"


text \<open>The number of nodes of a tree, the measure of the recursion of the Differ.\<close>

fun nsize :: "node \<Rightarrow> nat" where
  "nsize (Element _ _ _ cs) = Suc (sum_list (map nsize cs))"
| "nsize (Text _ _) = 1"
| "nsize (Comment _ _) = 1"

fun osize :: "node option \<Rightarrow> nat" where
  "osize None = 0"
| "osize (Some x) = nsize x"

lemma nsize_member: "x \<in> set xs \<Longrightarrow> nsize x \<le> sum_list (map nsize xs)"
  by (induction xs) auto

lemma osize_at: "osize (at xs i) \<le> sum_list (map nsize xs)"
  by (simp add: at_def nsize_member)

lemma nsize_childNodes: "sum_list (map nsize (childNodes e)) < nsize e"
  by (cases e) auto

text \<open>
  \<open>Differ.compareElements\<close> and the three methods it is mutually recursive with.
  The last argument is the allocation counter that \<open>cloneNode\<close> advances; the
  result is the list of changes with the counter, or the exception thrown. The loops
  that push onto \<open>changes\<close> thread the pair of the list and the counter.
\<close>

function compareElements :: "node option \<Rightarrow> node option \<Rightarrow> string \<Rightarrow> nat \<Rightarrow> js_error + change list \<times> nat"
  and compareChildren :: "node \<Rightarrow> node \<Rightarrow> string \<Rightarrow> nat \<Rightarrow> js_error + change list \<times> nat"
  and handleStructuralChange ::
    "node list \<Rightarrow> node list \<Rightarrow> node \<Rightarrow> string \<Rightarrow> structural_change \<Rightarrow> nat \<Rightarrow> js_error + change list \<times> nat"
  and compareRemainingChildren ::
    "node list \<Rightarrow> node list \<Rightarrow> change list \<Rightarrow> string \<Rightarrow> change_kind \<Rightarrow> nat \<Rightarrow> nat \<Rightarrow> nat \<Rightarrow>
       js_error + change list \<times> nat"
where
  "compareElements None None path n = Inr ([], n)"
| "compareElements None (Some newElement) path n =
     (case cloneNode newElement n of (c, n') \<Rightarrow> Inr ([Insert path c], n'))"
| "compareElements (Some oldElement) None path n = Inr ([Remove path oldElement], n)"
| "compareElements (Some oldElement) (Some newElement) path n =
     (if nodeType oldElement \<noteq> nodeType newElement then
        (case cloneNode newElement n of (c, n') \<Rightarrow> Inr ([Replace path oldElement c], n'))
      else if nodeType oldElement = TEXT_NODE then
        Inr (if textContent oldElement \<noteq> textContent newElement
             then [UpdateText path oldElement (textContent oldElement) (textContent newElement)]
             else [], n)
      else if nodeType oldElement = ELEMENT_NODE then
        (if tagName oldElement \<noteq> tagName newElement then
           (case cloneNode newElement n of (c, n') \<Rightarrow> Inr ([Replace path oldElement c], n'))
         else if isHeavyElement (Some oldElement) then Inr ([], n)
         else
           let elementPath = path @ (if path \<noteq> [] then '' > '' else []) @
                 toLowerCase (case tagName oldElement of Some t \<Rightarrow> t | None \<Rightarrow> []);
               attrChanges = compareAttributes oldElement newElement;
               changes = (if attrChanges \<noteq> []
                          then [UpdateAttributes elementPath oldElement attrChanges] else [])
           in case compareChildren oldElement newElement elementPath n of
                Inl e \<Rightarrow> Inl e
              | Inr (childChanges, n') \<Rightarrow> Inr (changes @ childChanges, n'))
      else Inr ([], n))"
| "compareChildren oldElement newElement path n =
     (let oldChildren = childNodes oldElement; newChildren = childNodes newElement
      in case isSimpleInsertionOrDeletion oldChildren newChildren of
           Some structuralChange \<Rightarrow>
             handleStructuralChange oldChildren newChildren oldElement path structuralChange n
         | None \<Rightarrow>
             if shouldReplaceAllChildren oldChildren newChildren then
               forEach [0..<length newChildren]
                 (\<lambda>i (changes, n).
                    case cloneNode (newChildren ! i) n of
                      (c, n') \<Rightarrow> Inr (changes @ [InsertChild path oldElement c i], n'))
                 (map (\<lambda>i. RemoveChild path oldElement (Some (oldChildren ! i)) i)
                    (rev [0..<length oldChildren]), n)
             else
               forEach [0..<max (length oldChildren) (length newChildren)]
                 (\<lambda>i (changes, n).
                    case (at oldChildren i, at newChildren i) of
                      (None, Some newChild) \<Rightarrow>
                        (case cloneNode newChild n of
                           (c, n') \<Rightarrow> Inr (changes @ [InsertChild path oldElement c i], n'))
                    | (Some oldChild, None) \<Rightarrow>
                        Inr (changes @ [RemoveChild path oldElement (Some oldChild) i], n)
                    | (Some oldChild, Some newChild) \<Rightarrow>
                        (case compareElements (Some oldChild) (Some newChild) (indexPath path i) n of
                           Inl e \<Rightarrow> Inl e
                         | Inr (childChanges, n') \<Rightarrow> Inr (changes @ childChanges, n'))
                    | (None, None) \<Rightarrow> Inr (changes, n))
                 ([], n))"
| "handleStructuralChange oldChildren newChildren parent path changeInfo n =
     (case kind changeInfo of
        Insertion \<Rightarrow>
          (case forEach [0..<count changeInfo]
                  (\<lambda>i (changes, n).
                     case at newChildren (position changeInfo + i) of
                       None \<Rightarrow> Inl TypeError
                     | Some newChild \<Rightarrow>
                         (case cloneNode newChild n of
                            (c, n') \<Rightarrow>
                              Inr (changes @ [InsertChild path parent c (position changeInfo + i)], n')))
                  ([], n) of
             Inl e \<Rightarrow> Inl e
           | Inr (changes, n') \<Rightarrow>
               compareRemainingChildren oldChildren newChildren changes path Insertion
                 (position changeInfo) (count changeInfo) n')
      | Deletion \<Rightarrow>
          compareRemainingChildren oldChildren newChildren
            (map (\<lambda>i. RemoveChild path parent (at oldChildren (position changeInfo + i))
                         (position changeInfo + i))
               [0..<count changeInfo])
            path Deletion (position changeInfo) (count changeInfo) n)"
| "compareRemainingChildren oldChildren newChildren changes path changeType changePos changeCount n =
     (case changeType of
        Insertion \<Rightarrow>
          (case forEach [0..<changePos]
                  (\<lambda>i (changes, n).
                     case shouldSkipComparison (at oldChildren i) (at newChildren i) of
                       Inl e \<Rightarrow> Inl e
                     | Inr skip \<Rightarrow>
                         if skip then Inr (changes, n)
                         else
                           (case compareElements (at oldChildren i) (at newChildren i)
                                   (indexPath path i) n of
                              Inl e \<Rightarrow> Inl e
                            | Inr (childChanges, n') \<Rightarrow> Inr (changes @ childChanges, n')))
                  (changes, n) of
             Inl e \<Rightarrow> Inl e
           | Inr st \<Rightarrow>
               forEach [changePos..<length oldChildren]
                 (\<lambda>i (changes, n).
                    case shouldSkipComparison (at oldChildren i) (at newChildren (i + changeCount)) of
                      Inl e \<Rightarrow> Inl e
                    | Inr skip \<Rightarrow>
                        if skip then Inr (changes, n)
                        else
                          (case compareElements (at oldChildren i) (at newChildren (i + changeCount))
                                  (indexPath path (i + changeCount)) n of
                             Inl e \<Rightarrow> Inl e
                           | Inr (childChanges, n') \<Rightarrow> Inr (changes @ childChanges, n')))
                 st)
      | Deletion \<Rightarrow>
          (case forEach [0..<changePos]
                  (\<lambda>i (changes, n).
                     case shouldSkipComparison (at oldChildren i) (at newChildren i) of
                       Inl e \<Rightarrow> Inl e
                     | Inr skip \<Rightarrow>
                         if skip then Inr (changes, n)
                         else
                           (case compareElements (at oldChildren i) (at newChildren i)
                                   (indexPath path i) n of
                              Inl e \<Rightarrow> Inl e
                            | Inr (childChanges, n') \<Rightarrow> Inr (changes @ childChanges, n')))
                  (changes, n) of
             Inl e \<Rightarrow> Inl e
           | Inr st \<Rightarrow>
               forEach [changePos..<length newChildren]
                 (\<lambda>i (changes, n).
                    case shouldSkipComparison (at oldChildren (i + changeCount)) (at newChildren i) of
                      Inl e \<Rightarrow> Inl e
                    | Inr skip \<Rightarrow>
                        if skip then Inr (changes, n)
                        else
                          (case compareElements (at oldChildren (i + changeCount)) (at newChildren i)
                                  (indexPath path i) n of
                             Inl e \<Rightarrow> Inl e
                           | Inr (childChanges, n') \<Rightarrow> Inr (changes @ childChanges, n')))
                 st))"
  by pat_completeness auto


termination
proof (relation "measure (\<lambda>x. case x of
      Inl (Inl (a, b, _)) \<Rightarrow> 2 * (osize a + osize b) + 1
    | Inl (Inr (a, b, _)) \<Rightarrow> 2 * (nsize a + nsize b)
    | Inr (Inl (xs, ys, _)) \<Rightarrow> 2 * (sum_list (map nsize xs) + sum_list (map nsize ys)) + 3
    | Inr (Inr (xs, ys, _)) \<Rightarrow> 2 * (sum_list (map nsize xs) + sum_list (map nsize ys)) + 2)", goal_cases)
  case 1
  show ?case by simp
next
  case (2 oldElement newElement)
  show ?case by simp
next
  case (3 oldElement newElement path n x xa i u xb y xc ya x2 x2a)
  show ?case
    using osize_at[of "childNodes oldElement" i] osize_at[of "childNodes newElement" i]
      nsize_childNodes[of oldElement] nsize_childNodes[of newElement] 3
    by simp
next
  case (4 oldElement newElement path n x xa x2)
  then show ?case
    using nsize_childNodes[of oldElement] nsize_childNodes[of newElement] by simp
next
  case (5 oldChildren newChildren parent path changeInfo n)
  show ?case by simp
next
  case (6 oldChildren newChildren parent path changeInfo n)
  show ?case by simp
next
  case (7 oldChildren newChildren changes path changeType changePos changeCount n i u x y b)
  show ?case
    using osize_at[of oldChildren i] osize_at[of newChildren i]
    by simp
next
  case (8 oldChildren newChildren changes path changeType changePos changeCount n b i u x y ba)
  show ?case
    using osize_at[of oldChildren i] osize_at[of newChildren "i + changeCount"]
    by simp
next
  case (9 oldChildren newChildren changes path changeType changePos changeCount n i u x y b)
  show ?case
    using osize_at[of oldChildren i] osize_at[of newChildren i]
    by simp
next
  case (10 oldChildren newChildren changes path changeType changePos changeCount n b i u x y ba)
  show ?case
    using osize_at[of oldChildren "i + changeCount"] osize_at[of newChildren i]
    by simp
qed


section \<open>Identity and shape of nodes\<close>

text \<open>
  The nodes of a tree (the node itself and its descendants), the tree with the
  identities erased (two trees of the same shape, tags, attributes and text erase to the
  same value) and the identities of its nodes. The nodes an operation carries are of two
  kinds: those \<open>Differ\<close> created with \<open>cloneNode(true)\<close> for the operation, and
  those it took by reference from the trees it was given.
\<close>

fun nodesOf :: "node \<Rightarrow> node list" where
  "nodesOf (Element i t as cs) = Element i t as cs # concat (map nodesOf cs)"
| "nodesOf (Text i v) = [Text i v]"
| "nodesOf (Comment i v) = [Comment i v]"

fun eraseIds :: "node \<Rightarrow> node" where
  "eraseIds (Element _ t as cs) = Element 0 t as (map eraseIds cs)"
| "eraseIds (Text _ v) = Text 0 v"
| "eraseIds (Comment _ v) = Comment 0 v"

definition idsOf :: "node \<Rightarrow> nat list" where
  "idsOf x = map nid (nodesOf x)"




fun clonedNodes :: "change \<Rightarrow> node list" where
  "clonedNodes (Insert _ e) = [e]"
| "clonedNodes (Replace _ _ e) = [e]"
| "clonedNodes (InsertChild _ _ c _) = [c]"
| "clonedNodes _ = []"

fun referencedNodes :: "change \<Rightarrow> node list" where
  "referencedNodes (Remove _ e) = [e]"
| "referencedNodes (Replace _ e _) = [e]"
| "referencedNodes (UpdateText _ e _ _) = [e]"
| "referencedNodes (UpdateAttributes _ e _) = [e]"
| "referencedNodes (InsertChild _ p _ _) = [p]"
| "referencedNodes (RemoveChild _ p c _) = p # (case c of None \<Rightarrow> [] | Some x \<Rightarrow> [x])"
| "referencedNodes _ = []"


section \<open>Patcher.applyChanges: the sort\<close>

text \<open>
  The object literal \<open>order\<close> of the comparator in \<open>applyChanges\<close>, read with
  \<open>order[a.type]\<close>. One of its seven keys reads as its number. The literal inherits
  the properties of \<open>Object.prototype\<close>, so one of their names reads as a function or
  an object, which is not a number. Any other type reads as \<open>undefined\<close>, here
  \<open>None\<close>.
\<close>

datatype table_value = Number nat | Inherited

definition inheritedKeys :: "string list" where
  "inheritedKeys =
     [''constructor'', ''hasOwnProperty'', ''isPrototypeOf'', ''propertyIsEnumerable'',
      ''toLocaleString'', ''toString'', ''valueOf'', ''__defineGetter__'',
      ''__defineSetter__'', ''__lookupGetter__'', ''__lookupSetter__'', ''__proto__'']"

definition order :: "string \<Rightarrow> table_value option" where
  "order t =
     (if t = ''removeChild'' then Some (Number 0)
      else if t = ''remove'' then Some (Number 1)
      else if t = ''updateText'' then Some (Number 2)
      else if t = ''updateAttributes'' then Some (Number 3)
      else if t = ''replace'' then Some (Number 4)
      else if t = ''insertChild'' then Some (Number 5)
      else if t = ''insert'' then Some (Number 6)
      else if t \<in> set inheritedKeys then Some Inherited
      else None)"

text \<open>
  \<open>order[a.type] || 10\<close>: JavaScript's \<open>||\<close> yields its right operand when the left
  one is falsy, and both \<open>undefined\<close> and the number \<open>0\<close> are falsy. An inherited
  property is truthy and stays; the difference the comparator then returns is \<open>NaN\<close>,
  which \<open>sort\<close> reads as \<open>0\<close> against every other change. With such a change in
  the batch the comparator is not consistent and the language leaves the order to the
  engine; the change is placed here with the unknown types.
\<close>

definition priority :: "change \<Rightarrow> nat" where
  "priority c =
     (case order (ctype c) of
        None \<Rightarrow> 10
      | Some (Number v) \<Rightarrow> if v = 0 then 10 else v
      | Some Inherited \<Rightarrow> 10)"

text \<open>
  \<open>[...changes].sort((a, b) => priority a - priority b)\<close>. \<open>Array.prototype.sort\<close>
  is stable; \<open>sort_key\<close> is the stable insertion sort of the list library.
\<close>

definition sortedChanges :: "change list \<Rightarrow> change list" where
  "sortedChanges changes = sort_key priority changes"

section \<open>Virtual nodes\<close>

text \<open>
  The description nodes \<open>Patcher.patchNode\<close> is given: plain objects with the fields
  \<open>type\<close>, \<open>nodeType\<close>, \<open>tagName\<close>, \<open>attributes\<close>, \<open>children\<close>,
  \<open>_nodeId\<close>, \<open>_immutable\<close> and \<open>content\<close>. A field that may be missing is
  an option; an entry of \<open>children\<close> may be \<open>null\<close>.
\<close>

datatype vnode = VNode
  (vtype: string) (vnodeType: "nat option") (vtagName: "string option")
  (vattributes: "(string \<times> string) list option")
  (vchildren: "vnode option list option")
  (vnodeId: "string option") (vimmutable: bool) (vcontent: "string option")

text \<open>A string is truthy when it is present and not empty.\<close>

definition truthy :: "string option \<Rightarrow> bool" where
  "truthy s = (case s of None \<Rightarrow> False | Some x \<Rightarrow> x \<noteq> [])"

text \<open>\<open>x || ""\<close> for an optional string.\<close>

definition orEmpty :: "string option \<Rightarrow> string" where
  "orEmpty s = (case s of None \<Rightarrow> [] | Some x \<Rightarrow> x)"

section \<open>Patcher.keyBasedPatch: the key maps\<close>

text \<open>
  An entry of \<open>oldChildMap\<close> (in \<open>newChildMap\<close> the field \<open>realNode\<close> is called
  \<open>newRealNode\<close>). A JavaScript \<open>Map\<close> keeps its entries in insertion order: an
  association list.
\<close>

record entry =
  vNode :: vnode
  realNode :: "node option"
  index :: nat
  originalKey :: string

text \<open>\<open>child._nodeId || `${child.type}-${index}-${child.tagName || ""}`\<close>\<close>

definition childKey :: "vnode \<Rightarrow> nat \<Rightarrow> string" where
  "childKey child i =
     (if truthy (vnodeId child) then orEmpty (vnodeId child)
      else vtype child @ ''-'' @ showNat i @ ''-'' @ orEmpty (vtagName child))"

definition dupKey :: "string \<Rightarrow> nat \<Rightarrow> string" where
  "dupKey key counter = key @ ''-dup'' @ showNat counter"

lemma showNat_nonempty: "showNat n \<noteq> []"
  by (subst showNat.simps) simp

lemma digit_inj: "a < 10 \<Longrightarrow> b < 10 \<Longrightarrow> digit a = digit b \<Longrightarrow> a = b"
proof -
  assume a: "a < 10" and b: "b < 10" and e: "digit a = digit b"
  from e have "(of_char (digit a) :: nat) = of_char (digit b)" by simp
  with a b show ?thesis by (simp add: digit_def)
qed

lemma showNat_inj: "showNat n = showNat m \<Longrightarrow> n = m"
proof (induction n arbitrary: m rule: showNat.induct)
  case (1 n)
  show ?case
  proof (cases "n < 10")
    case True
    with "1.prems" have "showNat m = [digit n]" by (subst (asm) showNat.simps) simp
    then have m: "m < 10" and "digit m = digit n"
      using showNat_nonempty[of "m div 10"]
      by (subst (asm) showNat.simps, simp split: if_splits)+
    then show ?thesis using True digit_inj by auto
  next
    case False
    with "1.prems" have e: "showNat m = showNat (n div 10) @ [digit (n mod 10)]"
      by (subst (asm) showNat.simps) simp
    have "\<not> m < 10"
    proof
      assume "m < 10"
      with e have "showNat (n div 10) @ [digit (n mod 10)] = [digit m]"
        by (subst (asm) showNat.simps) simp
      then show False using showNat_nonempty[of "n div 10"] by simp
    qed
    with e have "showNat (m div 10) @ [digit (m mod 10)] = showNat (n div 10) @ [digit (n mod 10)]"
      by (subst (asm) showNat.simps) simp
    then have "showNat (n div 10) = showNat (m div 10)" "digit (n mod 10) = digit (m mod 10)"
      by simp_all
    with "1.IH"[OF False, of "m div 10"] have "n div 10 = m div 10" "n mod 10 = m mod 10"
      using digit_inj[of "n mod 10" "m mod 10"] by auto
    then show ?thesis by (metis div_mult_mod_eq)
  qed
qed

lemma dupKey_inj: "dupKey key a = dupKey key b \<Longrightarrow> a = b"
  by (simp add: dupKey_def showNat_inj)

lemma finite_dups: "finite {c. dupKey key c \<in> set keys}"
proof -
  have "{c. dupKey key c \<in> set keys} = dupKey key -` set keys" by auto
  moreover have "inj (dupKey key)" by (auto intro: injI dupKey_inj)
  ultimately show ?thesis by (simp add: finite_vimageI)
qed

text \<open>
  The loop \<open>while (map.has(finalKey)) { counter++; finalKey = `${key}-dup${counter}` }\<close>,
  entered with the counter already incremented. It ends because the map has finitely many
  keys and the candidates are pairwise different.
\<close>

function nextDup :: "string list \<Rightarrow> string \<Rightarrow> nat \<Rightarrow> string" where
  "nextDup keys key counter =
     (if dupKey key counter \<in> set keys then nextDup keys key (Suc counter)
      else dupKey key counter)"
  by pat_completeness auto
termination
proof (relation "measure (\<lambda>(keys, key, counter). card {c. counter \<le> c \<and> dupKey key c \<in> set keys})",
    goal_cases)
  case 1
  show ?case by simp
next
  case (2 keys key counter)
  have fin: "finite {c. counter \<le> c \<and> dupKey key c \<in> set keys}"
    using finite_dups[of key keys] by (rule rev_finite_subset) auto
  have "counter \<in> {c. counter \<le> c \<and> dupKey key c \<in> set keys}"
    "counter \<notin> {c. Suc counter \<le> c \<and> dupKey key c \<in> set keys}"
    using 2 by auto
  moreover have "{c. Suc counter \<le> c \<and> dupKey key c \<in> set keys} \<subseteq>
        {c. counter \<le> c \<and> dupKey key c \<in> set keys}" by auto
  ultimately have "{c. Suc counter \<le> c \<and> dupKey key c \<in> set keys} \<subset>
        {c. counter \<le> c \<and> dupKey key c \<in> set keys}" by blast
  then show ?case using fin by (simp add: psubset_card_mono)
qed

declare nextDup.simps [simp del]

definition finalKey :: "string list \<Rightarrow> string \<Rightarrow> string" where
  "finalKey keys key = (if key \<in> set keys then nextDup keys key 1 else key)"

text \<open>
  \<open>children.forEach((child, index) => { if (child) { ...; map.set(finalKey, entry) } })\<close>
  as a recursion over the children with the index counted up and the map threaded.
\<close>

fun addEntries ::
  "vnode option list \<Rightarrow> node list \<Rightarrow> nat \<Rightarrow> (string \<times> entry) list \<Rightarrow> (string \<times> entry) list" where
  "addEntries [] realChildren i m = m"
| "addEntries (None # children) realChildren i m = addEntries children realChildren (Suc i) m"
| "addEntries (Some child # children) realChildren i m =
     addEntries children realChildren (Suc i)
       (m @ [(finalKey (map fst m) (childKey child i),
              \<lparr>vNode = child, realNode = at realChildren i, index = i,
               originalKey = childKey child i\<rparr>)])"

definition buildChildMap :: "vnode option list \<Rightarrow> node list \<Rightarrow> (string \<times> entry) list" where
  "buildChildMap children realChildren = addEntries children realChildren 0 []"


lemma nextDup_notin: "nextDup keys key c \<notin> set keys"
  by (induction keys key c rule: nextDup.induct) (subst nextDup.simps, simp)

lemma nextDup_form: "\<exists>c'\<ge>c. nextDup keys key c = dupKey key c'"
proof (induction keys key c rule: nextDup.induct)
  case (1 keys key counter)
  show ?case
  proof (cases "dupKey key counter \<in> set keys")
    case True
    from 1[OF True] obtain c' where "Suc counter \<le> c'" "nextDup keys key (Suc counter) = dupKey key c'"
      by auto
    with True show ?thesis by (subst nextDup.simps) (auto intro!: exI[of _ c'])
  next
    case False
    then show ?thesis by (subst nextDup.simps) auto
  qed
qed

lemma finalKey_notin: "finalKey keys key \<notin> set keys"
  by (simp add: finalKey_def nextDup_notin)

lemma finalKey_form: "finalKey keys key = key \<or> (\<exists>c\<ge>1. finalKey keys key = dupKey key c)"
  using nextDup_form[of 1 keys key] by (auto simp: finalKey_def)

text \<open>
  What is stored with a key: the key of the child at its position as \<open>originalKey\<close>,
  the live child at that position (\<open>undefined\<close> past the end) as \<open>realNode\<close>, and
  a key that is the original key or the original key with \<open>-dup\<close> and a counter
  from 1.
\<close>

definition entryOk :: "node list \<Rightarrow> string \<times> entry \<Rightarrow> bool" where
  "entryOk realChildren ke =
     (originalKey (snd ke) = childKey (vNode (snd ke)) (index (snd ke)) \<and>
      realNode (snd ke) = at realChildren (index (snd ke)) \<and>
      (fst ke = originalKey (snd ke) \<or> (\<exists>c\<ge>1. fst ke = dupKey (originalKey (snd ke)) c)))"

lemma upt_shift: "[i..<Suc (i + n)] = i # [Suc i..<Suc (i + n)]"
  by (simp add: upt_conv_Cons del: upt_Suc)

lemma addEntries_props:
  "distinct (map fst m) \<Longrightarrow> list_all (entryOk realChildren) m \<Longrightarrow>
   distinct (map fst (addEntries children realChildren i m)) \<and>
   list_all (entryOk realChildren) (addEntries children realChildren i m) \<and>
   map (\<lambda>ke. (index (snd ke), Some (vNode (snd ke)))) (addEntries children realChildren i m) =
     map (\<lambda>ke. (index (snd ke), Some (vNode (snd ke)))) m @
     filter (\<lambda>ic. snd ic \<noteq> None) (zip [i..<i + length children] children)"
proof (induction children realChildren i m rule: addEntries.induct)
  case (1 realChildren i m)
  then show ?case by simp
next
  case (2 children realChildren i m)
  then show ?case by (simp add: upt_shift del: upt_Suc)
next
  case (3 child children realChildren i m)
  let ?k = "finalKey (map fst m) (childKey child i)"
  let ?e = "\<lparr>vNode = child, realNode = at realChildren i, index = i, originalKey = childKey child i\<rparr>"
  have d: "distinct (map fst (m @ [(?k, ?e)]))"
    using "3.prems"(1) finalKey_notin[of "map fst m" "childKey child i"] by simp
  have "entryOk realChildren (?k, ?e)"
    using finalKey_form[of "map fst m" "childKey child i"] by (simp add: entryOk_def)
  with "3.prems"(2) have ok: "list_all (entryOk realChildren) (m @ [(?k, ?e)])"
    by simp
  from "3.IH"[OF d ok] show ?case by (simp add: upt_shift del: upt_Suc)
qed

lemma buildChildMap_props:
  "distinct (map fst (buildChildMap children realChildren)) \<and>
   list_all (entryOk realChildren) (buildChildMap children realChildren) \<and>
   map (\<lambda>ke. (index (snd ke), Some (vNode (snd ke)))) (buildChildMap children realChildren) =
     filter (\<lambda>ic. snd ic \<noteq> None) (zip [0..<length children] children)"
  using addEntries_props[of "[]" realChildren children 0] by (simp add: buildChildMap_def)

section \<open>NodeComparator: virtual nodes\<close>

text \<open>
  \<open>nodesAreEquivalent\<close> and \<open>isSimpleElementMatch\<close>, called on two nodes that are
  not \<open>null\<close>. Reading a property of \<open>attributes\<close> or calling \<open>trim\<close> on
  \<open>content\<close> throws a \<open>TypeError\<close> when the field is missing.
\<close>

definition keyAttrs :: "string list" where
  "keyAttrs = [''src'', ''href'', ''data-entity'', ''id'', ''class'']"

definition nodesAreEquivalent :: "vnode \<Rightarrow> vnode \<Rightarrow> js_error + bool" where
  "nodesAreEquivalent vNode1 vNode2 =
     (if vnodeType vNode1 \<noteq> vnodeType vNode2 then Inr False
      else if vtype vNode1 = ''text'' then
        (if vcontent vNode1 = vcontent vNode2 then Inr True
         else case (vcontent vNode1, vcontent vNode2) of
                (Some content1, Some content2) \<Rightarrow> Inr (trim content1 = [] \<and> trim content2 = [])
              | _ \<Rightarrow> Inl TypeError)
      else if vtype vNode1 = ''element'' then
        (if vtagName vNode1 \<noteq> vtagName vNode2 then Inr False
         else if vimmutable vNode1 \<or> vimmutable vNode2 then
           (case (vattributes vNode1, vattributes vNode2) of
              (Some attrs1, Some attrs2) \<Rightarrow>
                let position1 = orEmpty (map_of attrs1 ''data-block-position'');
                    position2 = orEmpty (map_of attrs2 ''data-block-position'')
                in if position1 \<noteq> [] \<and> position2 \<noteq> [] \<and> position1 = position2 then Inr True
                   else Inr (orEmpty (map_of attrs1 ''data-raw'') = orEmpty (map_of attrs2 ''data-raw'') \<and>
                             orEmpty (map_of attrs1 ''data-language'') =
                               orEmpty (map_of attrs2 ''data-language''))
            | _ \<Rightarrow> Inl TypeError)
         else if truthy (vnodeId vNode1) \<and> truthy (vnodeId vNode2) then
           Inr (vnodeId vNode1 = vnodeId vNode2)
         else
           (case (vattributes vNode1, vattributes vNode2) of
              (Some attrs1, Some attrs2) \<Rightarrow>
                Inr (list_all (\<lambda>attr. map_of attrs1 attr = map_of attrs2 attr) keyAttrs)
            | _ \<Rightarrow> Inl TypeError))
      else Inr False)"

definition tagIn :: "string option \<Rightarrow> string list \<Rightarrow> bool" where
  \<comment> \<open>\<open>list.includes(vNode.tagName)\<close>\<close>
  "tagIn t names = (case t of None \<Rightarrow> False | Some x \<Rightarrow> x \<in> set names)"

definition childrenOrEmpty :: "vnode \<Rightarrow> vnode option list" where
  \<comment> \<open>\<open>vNode.children || []\<close>\<close>
  "childrenOrEmpty v = (case vchildren v of None \<Rightarrow> [] | Some cs \<Rightarrow> cs)"

definition isSimpleElementMatch :: "vnode \<Rightarrow> vnode \<Rightarrow> js_error + bool" where
  "isSimpleElementMatch vNode1 vNode2 =
     (if vtype vNode1 = ''text'' \<and> vtype vNode2 = ''text'' then
        (case (vcontent vNode1, vcontent vNode2) of
           (Some c1, Some c2) \<Rightarrow>
             let content1 = trim c1; content2 = trim c2
             in if content1 = [] \<and> content2 = [] then Inr True
                else if content1 \<noteq> [] \<and> content2 \<noteq> []
                then Inr ((length content1 = 1) = (length content2 = 1))
                else Inr False
         | _ \<Rightarrow> Inl TypeError)
      else if vtype vNode1 = ''element'' \<and> vtype vNode2 = ''element'' then
        (if tagIn (vtagName vNode1) [''br'', ''hr''] \<and> tagIn (vtagName vNode2) [''br'', ''hr''] \<and>
            vtagName vNode1 = vtagName vNode2 then Inr True
         else if tagIn (vtagName vNode1) [''p'', ''div'', ''span'', ''strong'', ''em'', ''u'', ''i'', ''b''] \<and>
                 tagIn (vtagName vNode2) [''p'', ''div'', ''span'', ''strong'', ''em'', ''u'', ''i'', ''b''] \<and>
                 vtagName vNode1 = vtagName vNode2 then
           (let n1 = length (childrenOrEmpty vNode1); n2 = length (childrenOrEmpty vNode2)
            in if n1 = 0 \<and> n2 = 0 then Inr True
               else if n1 > 0 \<and> n2 > 0 \<and> (if n1 \<ge> n2 then n1 - n2 else n2 - n1) \<le> 1 then Inr True
               else Inr False)
         else Inr False)
      else Inr False)"

section \<open>DOM operations on a parent and its children\<close>

text \<open>
  The live tree the Patcher mutates is the value of the parent it is given; a mutation
  returns the new value. A child is found by its identity. \<open>appendChild\<close> and
  \<open>insertBefore\<close> throw a \<open>HierarchyRequestError\<close> on a parent that is not an
  element, \<open>insertBefore\<close> and \<open>replaceChild\<close> a \<open>NotFoundError\<close> when the
  reference node is not a child of the parent; a node that already is a child is moved.
\<close>

definition setChildren :: "node \<Rightarrow> node list \<Rightarrow> node" where
  "setChildren p cs = (case p of Element i t as _ \<Rightarrow> Element i t as cs | _ \<Rightarrow> p)"

definition setAttributes :: "node \<Rightarrow> (string \<times> string) list \<Rightarrow> node" where
  "setAttributes p as = (case p of Element i t _ cs \<Rightarrow> Element i t as cs | _ \<Rightarrow> p)"

definition indexOfNode :: "node list \<Rightarrow> node \<Rightarrow> nat option" where
  \<comment> \<open>\<open>children.indexOf(node)\<close>, \<open>None\<close> for \<open>-1\<close>\<close>
  "indexOfNode cs x = map_option fst (find (\<lambda>(i, c). nid c = nid x) (zip [0..<length cs] cs))"

definition without :: "node list \<Rightarrow> node \<Rightarrow> node list" where
  "without cs x = filter (\<lambda>c. nid c \<noteq> nid x) cs"

definition appendChild :: "node \<Rightarrow> node \<Rightarrow> js_error + node" where
  "appendChild parent x =
     (if nodeType parent \<noteq> ELEMENT_NODE then Inl (DOMException ''HierarchyRequestError'')
      else Inr (setChildren parent (without (childNodes parent) x @ [x])))"

definition insertBefore :: "node \<Rightarrow> node \<Rightarrow> node option \<Rightarrow> js_error + node" where
  "insertBefore parent x reference =
     (case reference of
        None \<Rightarrow> appendChild parent x
      | Some r \<Rightarrow>
          if nodeType parent \<noteq> ELEMENT_NODE then Inl (DOMException ''HierarchyRequestError'')
          else if indexOfNode (childNodes parent) r = None then Inl (DOMException ''NotFoundError'')
          else if nid r = nid x then Inr parent
          else
            let cs = without (childNodes parent) x
            in (case indexOfNode cs r of
                  None \<Rightarrow> Inl (DOMException ''NotFoundError'')
                | Some j \<Rightarrow> Inr (setChildren parent (take j cs @ [x] @ drop j cs))))"

definition replaceChild :: "node \<Rightarrow> node \<Rightarrow> node \<Rightarrow> js_error + node" where
  \<comment> \<open>\<open>parent.replaceChild(newChild, oldChild)\<close> with a new child that is not in the tree\<close>
  "replaceChild parent newChild oldChild =
     (if nodeType parent \<noteq> ELEMENT_NODE then Inl (DOMException ''HierarchyRequestError'')
      else case indexOfNode (childNodes parent) oldChild of
             None \<Rightarrow> Inl (DOMException ''NotFoundError'')
           | Some j \<Rightarrow> Inr (setChildren parent ((childNodes parent)[j := newChild])))"

definition putChild :: "node \<Rightarrow> node \<Rightarrow> node" where
  \<comment> \<open>the parent with the child of that identity in its new state\<close>
  "putChild parent x =
     setChildren parent (map (\<lambda>c. if nid c = nid x then x else c) (childNodes parent))"

text \<open>
  \<open>node.textContent = s\<close> on a text node or comment sets its data; \<open>undefined\<close> is
  written as the empty string.
\<close>

definition setTextContent :: "node \<Rightarrow> string \<Rightarrow> nat \<Rightarrow> node \<times> nat" where
  "setTextContent x s n =
     (case x of
        Text i _ \<Rightarrow> (Text i s, n)
      | Comment i _ \<Rightarrow> (Comment i s, n)
      | Element i t as _ \<Rightarrow> if s = [] then (Element i t as [], n)
                             else (Element i t as [Text n s], Suc n))"

text \<open>
  \<open>setAttribute\<close> and \<open>createElement\<close> throw an \<open>InvalidCharacterError\<close> on a
  name that is not a \<open>Name\<close> of XML: a first character that is a letter, \<open>:\<close> or
  \<open>_\<close>, followed by such characters, digits, \<open>-\<close>, \<open>.\<close> or the middle dot
  (183). The letters below 256 are \<open>A\<close>..\<open>Z\<close>, \<open>a\<close>..\<open>z\<close> and the codes
  192..214, 216..246 and 248..255. On an HTML element \<open>setAttribute\<close> and
  \<open>removeAttribute\<close> take the name in ASCII lower case; \<open>setAttribute\<close> overwrites
  the attribute of that name or appends a new one.
\<close>

definition nameStartChar :: "char \<Rightarrow> bool" where
  "nameStartChar c =
     (c = CHR '':'' \<or> c = CHR ''_'' \<or>
      (65 \<le> (of_char c :: nat) \<and> (of_char c :: nat) \<le> 90) \<or>
      (97 \<le> (of_char c :: nat) \<and> (of_char c :: nat) \<le> 122) \<or>
      (192 \<le> (of_char c :: nat) \<and> (of_char c :: nat) \<le> 214) \<or>
      (216 \<le> (of_char c :: nat) \<and> (of_char c :: nat) \<le> 246) \<or>
      248 \<le> (of_char c :: nat))"

definition nameChar :: "char \<Rightarrow> bool" where
  "nameChar c =
     (nameStartChar c \<or> c = CHR ''-'' \<or> c = CHR ''.'' \<or>
      (48 \<le> (of_char c :: nat) \<and> (of_char c :: nat) \<le> 57) \<or> (of_char c :: nat) = 183)"

definition validName :: "string \<Rightarrow> bool" where
  "validName name =
     (case name of [] \<Rightarrow> False | c # cs \<Rightarrow> nameStartChar c \<and> list_all nameChar cs)"

fun putAttr :: "(string \<times> string) list \<Rightarrow> string \<Rightarrow> string \<Rightarrow> (string \<times> string) list" where
  "putAttr [] name v = [(name, v)]"
| "putAttr ((k, w) # as) name v = (if k = name then (k, v) # as else (k, w) # putAttr as name v)"

definition setAttribute :: "node \<Rightarrow> string \<Rightarrow> string \<Rightarrow> js_error + node" where
  "setAttribute e name v =
     (if nodeType e \<noteq> ELEMENT_NODE then Inl TypeError
      else if \<not> validName name then Inl (DOMException ''InvalidCharacterError'')
      else Inr (setAttributes e (putAttr (attributes e) (asciiLowerCase name) v)))"

definition removeAttribute :: "node \<Rightarrow> string \<Rightarrow> js_error + node" where
  "removeAttribute e name =
     (if nodeType e \<noteq> ELEMENT_NODE then Inl TypeError
      else Inr (setAttributes e
                  (filter (\<lambda>(k, v). k \<noteq> asciiLowerCase name) (attributes e))))"

section \<open>MediaProcessor and the media helpers of NodeUtils\<close>

text \<open>
  \<open>options.processMediaElement\<close> is supplied by the caller. It is taken here as a
  function that, given the image element, either throws or returns the attributes it
  leaves on that image; \<open>None\<close> is the missing callback.
\<close>

type_synonym callback = "(node \<Rightarrow> js_error + (string \<times> string) list) option"

definition isLocalFilePath :: "string \<Rightarrow> bool" where
  "isLocalFilePath url =
     (if startsWith url ''file://'' then True
      else if \<not> startsWith url ''http'' \<and> \<not> startsWith url ''blob:'' \<and>
              \<not> startsWith url ''data:'' \<and> \<not> startsWith url ''//'' \<and> \<not> startsWith url ''#''
      then True
      else False)"

text \<open>
  The body of the loop of \<open>processNewNodeMedia\<close> for one image:
  \<open>img.dataset.forceReprocess = "true"\<close> writes the attribute
  \<open>data-force-reprocess\<close>, then the callback runs when there is one.
\<close>

definition forceReprocess :: "callback \<Rightarrow> node \<Rightarrow> node \<times> js_error option" where
  "forceReprocess cb img =
     (let img1 = setAttributes img (putAttr (attributes img) ''data-force-reprocess'' ''true'')
      in case cb of
           None \<Rightarrow> (img1, None)
         | Some f \<Rightarrow> (case f img1 of
                        Inl e \<Rightarrow> (img1, Some e)
                      | Inr as \<Rightarrow> (setAttributes img1 as, None)))"

definition processImg :: "callback \<Rightarrow> node \<Rightarrow> node \<times> js_error option" where
  "processImg cb img =
     (let src = getAttribute img ''src''
      in if truthy src \<and> \<not> startsWith (orEmpty src) ''blob:'' \<and>
            \<not> startsWith (orEmpty src) ''data:'' \<and> \<not> startsWith (orEmpty src) ''http''
         then forceReprocess cb img
         else if truthy src \<and> isLocalFilePath (orEmpty src)
         then forceReprocess cb img
         else (img, None))"

text \<open>
  The images \<open>querySelectorAll("img")\<close> finds below a node, processed in document
  order; an exception of the callback ends the loop and leaves the later images as they
  were.
\<close>

fun processImgs :: "callback \<Rightarrow> node \<Rightarrow> node \<times> js_error option"
  and processImgsList :: "callback \<Rightarrow> node list \<Rightarrow> node list \<times> js_error option" where
  "processImgs cb (Element i t as cs) =
     (if toLowerCase t = ''img'' then
        (case processImg cb (Element i t as cs) of
           (e, Some err) \<Rightarrow> (e, Some err)
         | (e, None) \<Rightarrow>
             (case processImgsList cb cs of (cs', err) \<Rightarrow> (setChildren e cs', err)))
      else (case processImgsList cb cs of (cs', err) \<Rightarrow> (Element i t as cs', err)))"
| "processImgs cb (Text i v) = (Text i v, None)"
| "processImgs cb (Comment i v) = (Comment i v, None)"
| "processImgsList cb [] = ([], None)"
| "processImgsList cb (c # cs) =
     (case processImgs cb c of
        (c', Some err) \<Rightarrow> (c' # cs, Some err)
      | (c', None) \<Rightarrow> (case processImgsList cb cs of (cs', err) \<Rightarrow> (c' # cs', err)))"

definition processNewNodeMedia :: "callback \<Rightarrow> node \<Rightarrow> node \<times> js_error option" where
  "processNewNodeMedia cb node =
     (if nodeType node \<noteq> ELEMENT_NODE then (node, None)
      else if tagName node = Some ''IMG'' then processImg cb node
      else (case processImgsList cb (childNodes node) of
              (cs', err) \<Rightarrow> (setChildren node cs', err)))"

text \<open>
  \<open>node.querySelector("img, video, iframe")\<close> and \<open>node.querySelector("pre code")\<close>
  on a node that is not attached to a document: a descendant with one of the tags, and a
  \<open>code\<close> descendant below a \<open>pre\<close>.
\<close>

fun hasDescendant :: "string list \<Rightarrow> node \<Rightarrow> bool" where
  "hasDescendant tags (Element _ _ _ cs) =
     list_ex (\<lambda>c. (case tagName c of None \<Rightarrow> False | Some t \<Rightarrow> toLowerCase t \<in> set tags) \<or>
                   hasDescendant tags c) cs"
| "hasDescendant tags _ = False"

fun hasPreCode :: "bool \<Rightarrow> node \<Rightarrow> bool" where
  "hasPreCode inPre (Element _ t _ cs) =
     list_ex (\<lambda>c. (inPre \<or> toLowerCase t = ''pre'') \<and> map_option toLowerCase (tagName c) = Some ''code'' \<or>
                   hasPreCode (inPre \<or> toLowerCase t = ''pre'') c) cs"
| "hasPreCode inPre _ = False"

definition needsMediaProcessing :: "node \<Rightarrow> bool" where
  "needsMediaProcessing node =
     (if nodeType node \<noteq> ELEMENT_NODE then False
      else if toLowerCase (orEmpty (tagName node)) \<in> set [''img'', ''video'', ''iframe''] then True
      else if hasDescendant [''img'', ''video'', ''iframe''] node then True
      else if hasPreCode False node then True
      else False)"

text \<open>
  \<open>NodeUtils.updateElementAttributes\<close>. The first loop iterates the live attribute
  collection of the old element by index while it removes from it, so the attribute that
  moves into the place of a removed one is not visited.
\<close>

function removeStale :: "(string \<times> string) list \<Rightarrow> (string \<times> string) list \<Rightarrow> nat \<Rightarrow> (string \<times> string) list" where
  "removeStale old new i =
     (if i < length old then
        (if fst (old ! i) \<notin> fst ` set new
         then removeStale (filter (\<lambda>(k, v). k \<noteq> fst (old ! i)) old) new (Suc i)
         else removeStale old new (Suc i))
      else old)"
  by pat_completeness auto
termination
proof (relation "measure (\<lambda>(old, new, i). Suc (length old) - i)", goal_cases)
  case 1
  show ?case by simp
next
  case (2 old new i)
  define old' where "old' = filter (\<lambda>(k, v). k \<noteq> fst (old ! i)) old"
  have "length old' \<le> length old" by (simp add: old'_def)
  with 2 have "Suc (length old') - Suc i < Suc (length old) - i" by arith
  then show ?case by (simp add: old'_def)
next
  case (3 old new i)
  then show ?case by simp
qed

declare removeStale.simps [simp del]

definition updateElementAttributes :: "node \<Rightarrow> node option \<Rightarrow> js_error + node" where
  "updateElementAttributes oldElement newElement =
     (case newElement of
        None \<Rightarrow> if nodeType oldElement \<noteq> ELEMENT_NODE then Inr oldElement else Inl TypeError
      | Some new \<Rightarrow>
          if nodeType oldElement \<noteq> ELEMENT_NODE \<or> nodeType new \<noteq> ELEMENT_NODE then Inr oldElement
          else if isHeavyElement (Some oldElement) then Inr oldElement
          else Inr (setAttributes oldElement
                 (foldl (\<lambda>as (k, v). if map_of as k \<noteq> Some v then putAttr as k v else as)
                    (removeStale (attributes oldElement) (attributes new) 0)
                    (attributes new))))"

section \<open>Patcher: keyed reconciliation\<close>

text \<open>
  The state the Patcher threads besides the live parent: the counter of allocated node
  identities, and the lines written with \<open>console.error\<close>. Every method returns the
  parent as it left it, the state, and the exception it threw, if any: what was done
  before a throw stays done.
\<close>

record pstate =
  nextId :: nat
  errorLog :: "(string \<times> js_error) list"

datatype operation =
    UpdateOp nat entry vnode "node option"
  | InsertOp nat vnode "node option"
  | RemoveOp entry

fun opType :: "operation \<Rightarrow> string" where
  "opType (UpdateOp _ _ _ _) = ''update''"
| "opType (InsertOp _ _ _) = ''insert''"
| "opType (RemoveOp _) = ''remove''"

type_synonym patcher =
  "node option \<Rightarrow> vnode option \<Rightarrow> vnode option \<Rightarrow> node option \<Rightarrow> pstate \<Rightarrow>
     node option \<times> pstate \<times> js_error option"

text \<open>
  \<open>if (op.newIndex >= currentChildren.length) parent.appendChild(node) else
  parent.insertBefore(node, currentChildren[op.newIndex] || null)\<close>
\<close>

definition insertAtIndex :: "node \<Rightarrow> node \<Rightarrow> nat \<Rightarrow> js_error + node" where
  "insertAtIndex realParent x newIndex =
     (let currentChildren = childNodes realParent
      in if newIndex \<ge> length currentChildren then appendChild realParent x
         else insertBefore realParent x (at currentChildren newIndex))"

text \<open>
  \<open>document.createElement(name)\<close> and the \<open>setAttribute\<close> loop over
  \<open>Object.entries(attributes || {})\<close>; \<open>undefined\<close> is converted to the string
  \<open>undefined\<close>, also by \<open>document.createTextNode\<close>.
\<close>

definition orUndefined :: "string option \<Rightarrow> string" where
  "orUndefined s = (case s of None \<Rightarrow> ''undefined'' | Some x \<Rightarrow> x)"

fun setAttributesAll :: "node \<Rightarrow> (string \<times> string) list \<Rightarrow> js_error + node" where
  "setAttributesAll e [] = Inr e"
| "setAttributesAll e ((k, v) # rest) =
     (case setAttribute e k v of Inl err \<Rightarrow> Inl err | Inr e' \<Rightarrow> setAttributesAll e' rest)"

definition createElementWith :: "nat \<Rightarrow> string option \<Rightarrow> (string \<times> string) list option \<Rightarrow> js_error + node" where
  "createElementWith i name as =
     (if \<not> validName (orUndefined name) then Inl (DOMException ''InvalidCharacterError'')
      else setAttributesAll (Element i (asciiUpperCase (orUndefined name)) [] [])
             (case as of None \<Rightarrow> [] | Some xs \<Rightarrow> xs))"

definition handleInsert ::
  "callback \<Rightarrow> nat \<Rightarrow> vnode \<Rightarrow> node option \<Rightarrow> node \<Rightarrow> pstate \<Rightarrow> node \<times> pstate \<times> js_error option" where
  "handleInsert cb newIndex newChild newRealChild realParent st =
     (let currentChildren = childNodes realParent;
          shouldSkipInsertion =
            (case at currentChildren newIndex of
               None \<Rightarrow> False
             | Some existingNode \<Rightarrow>
                 if vtype newChild = ''text'' \<and> nodeType existingNode = TEXT_NODE
                 then Some (textContent existingNode) = vcontent newChild
                 else if vtype newChild = ''element'' \<and> nodeType existingNode = ELEMENT_NODE
                 then map_option toLowerCase (tagName existingNode) = vtagName newChild
                 else False)
      in if shouldSkipInsertion then (realParent, st, None)
         else
           (case newRealChild of
              Some template \<Rightarrow>
                (case cloneNode template (nextId st) of
                   (clonedNode, n') \<Rightarrow>
                     (case insertAtIndex realParent clonedNode newIndex of
                        Inl e \<Rightarrow> (realParent, st\<lparr>nextId := n'\<rparr>, Some e)
                      | Inr parent1 \<Rightarrow>
                          if needsMediaProcessing clonedNode then
                            (case processNewNodeMedia cb clonedNode of
                               (processed, err) \<Rightarrow>
                                 (putChild parent1 processed, st\<lparr>nextId := n'\<rparr>, err))
                          else (parent1, st\<lparr>nextId := n'\<rparr>, None)))
            | None \<Rightarrow>
                if vtype newChild = ''text'' then
                  (case insertAtIndex realParent
                          (Text (nextId st) (orUndefined (vcontent newChild))) newIndex of
                     Inl e \<Rightarrow> (realParent, st\<lparr>nextId := Suc (nextId st)\<rparr>, Some e)
                   | Inr parent1 \<Rightarrow> (parent1, st\<lparr>nextId := Suc (nextId st)\<rparr>, None))
                else if vtype newChild = ''element'' then
                  (case createElementWith (nextId st) (vtagName newChild) (vattributes newChild) of
                     Inl e \<Rightarrow> (realParent, st\<lparr>nextId := Suc (nextId st)\<rparr>, Some e)
                   | Inr newElement \<Rightarrow>
                       (case insertAtIndex realParent newElement newIndex of
                          Inl e \<Rightarrow> (realParent, st\<lparr>nextId := Suc (nextId st)\<rparr>, Some e)
                        | Inr parent1 \<Rightarrow> (parent1, st\<lparr>nextId := Suc (nextId st)\<rparr>, None)))
                else (realParent, st, None)))"

text \<open>
  The state in which a node referenced by an entry is now: the child of the parent with
  that identity, or the node as the entry holds it when it is no longer a child.
\<close>

definition currentNode :: "node \<Rightarrow> node \<Rightarrow> node" where
  "currentNode realParent x =
     (case find (\<lambda>c. nid c = nid x) (childNodes realParent) of None \<Rightarrow> x | Some c \<Rightarrow> c)"

text \<open>
  \<open>handleUpdate\<close>; its recursive call of \<open>this.patchNode\<close> is the first argument.
\<close>

definition handleUpdate ::
  "patcher \<Rightarrow> callback \<Rightarrow> nat \<Rightarrow> entry \<Rightarrow> vnode \<Rightarrow> node option \<Rightarrow> node \<Rightarrow> pstate \<Rightarrow>
     node \<times> pstate \<times> js_error option" where
  "handleUpdate patch cb newIndex oldEntry newChild newRealChild realParent st =
     (case realNode oldEntry of
        None \<Rightarrow> (realParent, st, None)
      | Some realNode0 \<Rightarrow>
          if vimmutable newChild \<or> vimmutable (vNode oldEntry) then
            (case (vattributes (vNode oldEntry), vattributes newChild) of
               (Some oldAttrs, Some newAttrs) \<Rightarrow>
                 if orEmpty (map_of oldAttrs ''data-raw'') = orEmpty (map_of newAttrs ''data-raw'') \<and>
                    orEmpty (map_of oldAttrs ''data-language'') =
                      orEmpty (map_of newAttrs ''data-language'')
                 then (realParent, st, None)
                 else
                   (case newRealChild of
                      None \<Rightarrow> (realParent, st, None)
                    | Some template \<Rightarrow>
                        (case cloneNode template (nextId st) of
                           (clonedNode, n') \<Rightarrow>
                             (case replaceChild realParent clonedNode realNode0 of
                                Inl e \<Rightarrow> (realParent, st\<lparr>nextId := n'\<rparr>, Some e)
                              | Inr parent1 \<Rightarrow>
                                  (case processNewNodeMedia cb clonedNode of
                                     (processed, err) \<Rightarrow>
                                       (putChild parent1 processed, st\<lparr>nextId := n'\<rparr>, err)))))
             | _ \<Rightarrow> (realParent, st, Some TypeError))
          else
            (let currentChildren = childNodes realParent;
                 currentIndex = indexOfNode currentChildren realNode0;
                 node0 = currentNode realParent realNode0;
                 moved =
                   (case currentIndex of
                      None \<Rightarrow> Inr realParent
                    | Some ci \<Rightarrow>
                        if ci \<noteq> newIndex then
                          (if newIndex \<ge> length currentChildren then appendChild realParent node0
                           else insertBefore realParent node0 (at currentChildren newIndex))
                        else Inr realParent)
             in case moved of
                  Inl e \<Rightarrow> (realParent, st, Some e)
                | Inr parent1 \<Rightarrow>
                    if vtype (vNode oldEntry) = ''element'' \<and> vtype newChild = ''element'' then
                      (case (if \<not> isHeavyElement (Some node0)
                             then updateElementAttributes node0 newRealChild else Inr node0) of
                         Inl e \<Rightarrow> (parent1, st, Some e)
                       | Inr node1 \<Rightarrow>
                           (case patch (Some node1) (Some (vNode oldEntry)) (Some newChild)
                                   newRealChild st of
                              (node2, st', err) \<Rightarrow>
                                (putChild parent1 (case node2 of None \<Rightarrow> node1 | Some x \<Rightarrow> x),
                                 st', err)))
                    else if vtype (vNode oldEntry) = ''text'' \<and> vtype newChild = ''text'' then
                      (if vcontent (vNode oldEntry) \<noteq> vcontent newChild then
                         (case setTextContent node0 (orEmpty (vcontent newChild)) (nextId st) of
                            (node1, n') \<Rightarrow> (putChild parent1 node1, st\<lparr>nextId := n'\<rparr>, None))
                       else (parent1, st, None))
                    else (parent1, st, None)))"

definition executeOperation ::
  "patcher \<Rightarrow> callback \<Rightarrow> operation \<Rightarrow> node \<Rightarrow> pstate \<Rightarrow> node \<times> pstate \<times> js_error option" where
  "executeOperation patch cb op realParent st =
     (case op of
        RemoveOp oldEntry \<Rightarrow>
          (case realNode oldEntry of
             None \<Rightarrow> (realParent, st, None)
           | Some realNode0 \<Rightarrow>
               if \<not> isHeavyElement (Some (currentNode realParent realNode0))
               then (setChildren realParent (without (childNodes realParent) realNode0), st, None)
               else (realParent, st, None))
      | InsertOp newIndex newChild newRealChild \<Rightarrow>
          handleInsert cb newIndex newChild newRealChild realParent st
      | UpdateOp newIndex oldEntry newChild newRealChild \<Rightarrow>
          handleUpdate patch cb newIndex oldEntry newChild newRealChild realParent st)"

text \<open>
  The three matching strategies of the first pass. Each scans the entries of
  \<open>oldChildMap\<close> in insertion order, skips the keys already matched and stops at the
  first entry that satisfies it; the comparison may throw.
\<close>

fun findEntry ::
  "(entry \<Rightarrow> js_error + bool) \<Rightarrow> string list \<Rightarrow> (string \<times> entry) list \<Rightarrow>
     js_error + (string \<times> entry) option" where
  "findEntry p matched [] = Inr None"
| "findEntry p matched ((k, e) # rest) =
     (if k \<in> set matched then findEntry p matched rest
      else case p e of
             Inl err \<Rightarrow> Inl err
           | Inr b \<Rightarrow> if b then Inr (Some (k, e)) else findEntry p matched rest)"

definition matchOld ::
  "(string \<times> entry) list \<Rightarrow> string list \<Rightarrow> vnode \<Rightarrow> nat \<Rightarrow> js_error + (string \<times> entry) option" where
  "matchOld oldChildMap matched newChild newIndex =
     (case findEntry
             (\<lambda>oldEntry. Inr (truthy (vnodeId newChild) \<and> truthy (vnodeId (vNode oldEntry)) \<and>
                               vnodeId newChild = vnodeId (vNode oldEntry)))
             matched oldChildMap of
        Inl err \<Rightarrow> Inl err
      | Inr (Some m) \<Rightarrow> Inr (Some m)
      | Inr None \<Rightarrow>
          (case findEntry (\<lambda>oldEntry. nodesAreEquivalent (vNode oldEntry) newChild)
                  matched oldChildMap of
             Inl err \<Rightarrow> Inl err
           | Inr (Some m) \<Rightarrow> Inr (Some m)
           | Inr None \<Rightarrow>
               findEntry
                 (\<lambda>oldEntry.
                    case isSimpleElementMatch (vNode oldEntry) newChild of
                      Inl err \<Rightarrow> Inl err
                    | Inr isSimpleMatch \<Rightarrow>
                        Inr (isSimpleMatch \<and>
                             (if index oldEntry \<ge> newIndex then index oldEntry - newIndex
                              else newIndex - index oldEntry) \<le> 2))
                 matched oldChildMap))"

fun firstPass ::
  "(string \<times> entry) list \<Rightarrow> vnode option list \<Rightarrow> node list \<Rightarrow> nat \<Rightarrow> string list \<Rightarrow>
     operation list \<Rightarrow> js_error + string list \<times> operation list" where
  "firstPass oldChildMap [] newRealChildren newIndex matched operations = Inr (matched, operations)"
| "firstPass oldChildMap (None # rest) newRealChildren newIndex matched operations =
     firstPass oldChildMap rest newRealChildren (Suc newIndex) matched operations"
| "firstPass oldChildMap (Some newChild # rest) newRealChildren newIndex matched operations =
     (case matchOld oldChildMap matched newChild newIndex of
        Inl err \<Rightarrow> Inl err
      | Inr (Some (actualOldKey, matchedOldEntry)) \<Rightarrow>
          firstPass oldChildMap rest newRealChildren (Suc newIndex)
            (if actualOldKey \<noteq> [] then matched @ [actualOldKey] else matched)
            (operations @
               [UpdateOp newIndex matchedOldEntry newChild (at newRealChildren newIndex)])
      | Inr None \<Rightarrow>
          firstPass oldChildMap rest newRealChildren (Suc newIndex) matched
            (operations @ [InsertOp newIndex newChild (at newRealChildren newIndex)]))"

definition secondPass :: "(string \<times> entry) list \<Rightarrow> string list \<Rightarrow> operation list" where
  "secondPass oldChildMap matched =
     map (\<lambda>(oldKey, oldEntry). RemoveOp oldEntry)
       (filter (\<lambda>(oldKey, oldEntry). oldKey \<notin> set matched) oldChildMap)"

text \<open>
  \<open>operations.sort(...)\<close>: the comparator puts a remove before anything else and
  orders the others by \<open>newIndex\<close>. It answers \<open>-1\<close> for two removes in either
  order, so the language leaves the order of the removes among themselves to the engine.
  The removes are pushed last; an insertion sort that places each element by asking the
  comparator with that element first, as V8 does, puts every remove in front of all that
  was placed before it. The removes are taken in that order: the reverse of the order in
  which they were pushed.
\<close>

fun opIndex :: "operation \<Rightarrow> nat" where
  "opIndex (UpdateOp i _ _ _) = i"
| "opIndex (InsertOp i _ _) = i"
| "opIndex (RemoveOp _) = 0"

definition sortOperations :: "operation list \<Rightarrow> operation list" where
  "sortOperations operations =
     rev (filter (\<lambda>op. opType op = ''remove'') operations) @
     sort_key opIndex (filter (\<lambda>op. opType op \<noteq> ''remove'') operations)"

text \<open>
  \<open>for (const op of operations) { try { this.executeOperation(op, realParent) }
  catch (opError) { console.error(`Error executing ${op.type} operation:`, opError) } }\<close>
\<close>

fun executeAll ::
  "(operation \<Rightarrow> node \<Rightarrow> pstate \<Rightarrow> node \<times> pstate \<times> js_error option) \<Rightarrow> operation list \<Rightarrow>
     node \<Rightarrow> pstate \<Rightarrow> node \<times> pstate" where
  "executeAll exec [] realParent st = (realParent, st)"
| "executeAll exec (op # rest) realParent st =
     (case exec op realParent st of
        (parent1, st1, None) \<Rightarrow> executeAll exec rest parent1 st1
      | (parent1, st1, Some opError) \<Rightarrow>
          executeAll exec rest parent1
            (st1\<lparr>errorLog := errorLog st1 @
               [(''Error executing '' @ opType op @ '' operation:'', opError)]\<rparr>))"

definition keyBasedPatch ::
  "patcher \<Rightarrow> callback \<Rightarrow> node \<Rightarrow> vnode option list \<Rightarrow> vnode option list \<Rightarrow> node list \<Rightarrow>
     pstate \<Rightarrow> node \<times> pstate \<times> js_error option" where
  "keyBasedPatch patch cb realParent oldChildren newChildren newRealChildren st =
     (let realChildren = childNodes realParent;
          oldChildMap = buildChildMap oldChildren realChildren;
          newChildMap = buildChildMap newChildren newRealChildren
      in case firstPass oldChildMap newChildren newRealChildren 0 [] [] of
           Inl err \<Rightarrow> (realParent, st, Some err)
         | Inr (matched, operations) \<Rightarrow>
             (case executeAll (executeOperation patch cb)
                     (sortOperations (operations @ secondPass oldChildMap matched))
                     realParent st of
                (parent1, st1) \<Rightarrow> (parent1, st1, None)))"


text \<open>
  \<open>keyBasedPatch\<close> calls \<open>this.patchNode\<close> only from \<open>handleUpdate\<close>, on a new
  child of the list it was given.
\<close>

fun newChildIn :: "vnode option list \<Rightarrow> operation \<Rightarrow> bool" where
  "newChildIn cs (UpdateOp _ _ newChild _) = (Some newChild \<in> set cs)"
| "newChildIn cs _ = True"

lemma firstPass_newChildIn:
  "firstPass m cs reals i matched ops = Inr (matched', ops') \<Longrightarrow> set cs \<subseteq> set allcs \<Longrightarrow>
   list_all (newChildIn allcs) ops \<Longrightarrow> list_all (newChildIn allcs) ops'"
proof (induction m cs reals i matched ops rule: firstPass.induct)
  case (1 oldChildMap newRealChildren newIndex matched operations)
  then show ?case by simp
next
  case (2 oldChildMap rest newRealChildren newIndex matched operations)
  then show ?case by simp
next
  case (3 oldChildMap newChild rest newRealChildren newIndex matched operations)
  show ?case
  proof (cases "matchOld oldChildMap matched newChild newIndex")
    case (Inl e)
    with "3.prems" show ?thesis by simp
  next
    case (Inr r)
    show ?thesis
    proof (cases r)
      case None
      with Inr "3.prems" "3.IH"(1)[OF Inr None] show ?thesis by simp
    next
      case (Some ke)
      obtain k e where ke: "ke = (k, e)" by (cases ke)
      with Inr Some "3.prems" "3.IH"(2)[OF Inr Some ke[symmetric]] show ?thesis by simp
    qed
  qed
qed

lemma set_sortOperations: "set (sortOperations ops) = set ops"
  by (auto simp: sortOperations_def)

lemma executeAll_cong:
  "(\<And>op rp s. op \<in> set ops \<Longrightarrow> exec op rp s = exec' op rp s) \<Longrightarrow>
   executeAll exec ops rp st = executeAll exec' ops rp st"
  by (induction ops arbitrary: rp st) (auto split: prod.splits option.splits)

lemma executeOperation_cong:
  assumes "newChildIn cs op"
    and "\<And>rn ov nc nr s. Some nc \<in> set cs \<Longrightarrow> patch rn ov (Some nc) nr s = patch' rn ov (Some nc) nr s"
  shows "executeOperation patch cb op rp st = executeOperation patch' cb op rp st"
proof (cases op)
  case (UpdateOp i e nc nr)
  with assms(1) have "Some nc \<in> set cs" by simp
  from assms(2)[OF this] have "patch rn ov (Some nc) = patch' rn ov (Some nc)" for rn ov
    by (intro ext)
  then show ?thesis
    unfolding UpdateOp executeOperation_def handleUpdate_def
    by (simp cong: option.case_cong sum.case_cong prod.case_cong if_cong)
qed (simp_all add: executeOperation_def)

lemma keyBasedPatch_cong [fundef_cong]:
  assumes "cb = cb'" "realParent = realParent'" "oldChildren = oldChildren'"
    "newChildren = newChildren'" "newRealChildren = newRealChildren'" "st = st'"
    and p: "\<And>rn ov nc nr s. Some nc \<in> set newChildren' \<Longrightarrow>
        patch rn ov (Some nc) nr s = patch' rn ov (Some nc) nr s"
  shows "keyBasedPatch patch cb realParent oldChildren newChildren newRealChildren st =
         keyBasedPatch patch' cb' realParent' oldChildren' newChildren' newRealChildren' st'"
proof -
  let ?m = "buildChildMap oldChildren' (childNodes realParent')"
  show ?thesis
  proof (cases "firstPass ?m newChildren' newRealChildren' 0 [] []")
    case (Inl e)
    with assms(1-6) show ?thesis by (simp add: keyBasedPatch_def)
  next
    case (Inr r)
    obtain matched ops where r: "r = (matched, ops)" by (cases r)
    from firstPass_newChildIn[OF Inr[unfolded r], of newChildren'] have
      "list_all (newChildIn newChildren') ops" by simp
    moreover have "list_all (newChildIn newChildren') (secondPass ?m matched)"
      by (simp add: secondPass_def list_all_iff split_beta)
    ultimately have all: "\<forall>op\<in>set (sortOperations (ops @ secondPass ?m matched)). newChildIn newChildren' op"
      by (auto simp: set_sortOperations list_all_iff)
    have "executeAll (executeOperation patch cb') (sortOperations (ops @ secondPass ?m matched)) realParent' st' =
          executeAll (executeOperation patch' cb') (sortOperations (ops @ secondPass ?m matched)) realParent' st'"
      by (rule executeAll_cong) (use all p in \<open>auto intro: executeOperation_cong\<close>)
    with Inr r assms(1-6) show ?thesis by (simp add: keyBasedPatch_def)
  qed
qed

fun vsize :: "vnode \<Rightarrow> nat" where
  "vsize (VNode _ _ _ _ cs _ _ _) =
     Suc (sum_list (map (\<lambda>c. case c of None \<Rightarrow> 0 | Some x \<Rightarrow> vsize x)
                      (case cs of None \<Rightarrow> [] | Some l \<Rightarrow> l)))"

lemma vsize_member:
  "Some c \<in> set cs \<Longrightarrow>
   vsize c \<le> sum_list (map (\<lambda>c. case c of None \<Rightarrow> 0 | Some x \<Rightarrow> vsize x) cs)"
  by (induction cs) auto

lemma vsize_child: "Some c \<in> set (childrenOrEmpty v) \<Longrightarrow> vsize c < vsize v"
  using vsize_member[of c "childrenOrEmpty v"]
  by (cases v) (simp add: childrenOrEmpty_def)

text \<open>
  \<open>patchNode\<close>. The \<open>try\<close> block covers everything after the two guards; its
  \<open>catch\<close> logs the error and throws it again.
\<close>

definition opt_vsize :: "vnode option \<Rightarrow> nat" where
  "opt_vsize v = (case v of None \<Rightarrow> 0 | Some x \<Rightarrow> vsize x)"

function patchNode ::
  "callback \<Rightarrow> node option \<Rightarrow> vnode option \<Rightarrow> vnode option \<Rightarrow> node option \<Rightarrow> pstate \<Rightarrow>
     node option \<times> pstate \<times> js_error option" where
  "patchNode cb realParent oldVNode newVNode newRealElement st =
     (case realParent of
        None \<Rightarrow> (None, st, None)
      | Some parent \<Rightarrow>
          if getAttribute parent ''data-immutable'' = Some ''true'' then (Some parent, st, None)
          else
            (case
               (let realChildren = childNodes parent;
                    oldChildren = (case oldVNode of None \<Rightarrow> [] | Some v \<Rightarrow> childrenOrEmpty v);
                    newChildren = (case newVNode of None \<Rightarrow> [] | Some v \<Rightarrow> childrenOrEmpty v);
                    newRealChildren = (case newRealElement of None \<Rightarrow> [] | Some e \<Rightarrow> childNodes e)
                in if newChildren = [] \<and> oldChildren = [] then (parent, st, None)
                   else
                     (case (if length newChildren = 1 \<and> length oldChildren = 1
                            then (case hd newChildren of
                                    None \<Rightarrow> Inl TypeError
                                  | Some new0 \<Rightarrow>
                                      if vtype new0 \<noteq> ''text'' then Inr None
                                      else (case hd oldChildren of
                                              None \<Rightarrow> Inl TypeError
                                            | Some old0 \<Rightarrow>
                                                if vtype old0 = ''text'' then Inr (Some (old0, new0))
                                                else Inr None))
                            else Inr None) of
                        Inl e \<Rightarrow> (parent, st, Some e)
                      | Inr textOnly \<Rightarrow>
                          (case (case textOnly of
                                   None \<Rightarrow> None
                                 | Some (old0, new0) \<Rightarrow>
                                     (case at realChildren 0 of
                                        None \<Rightarrow> None
                                      | Some realTextNode \<Rightarrow>
                                          if nodeType realTextNode = TEXT_NODE
                                          then Some (old0, new0, realTextNode) else None)) of
                             Some (old0, new0, realTextNode) \<Rightarrow>
                               if vcontent old0 \<noteq> vcontent new0 then
                                 (case setTextContent realTextNode (orEmpty (vcontent new0)) (nextId st) of
                                    (t, n') \<Rightarrow> (putChild parent t, st\<lparr>nextId := n'\<rparr>, None))
                               else (parent, st, None)
                           | None \<Rightarrow>
                               keyBasedPatch (patchNode cb) cb parent oldChildren newChildren
                                 newRealChildren st))) of
               (parent1, st1, None) \<Rightarrow> (Some parent1, st1, None)
             | (parent1, st1, Some error) \<Rightarrow>
                 (Some parent1,
                  st1\<lparr>errorLog := errorLog st1 @ [(''Patch node error:'', error)]\<rparr>,
                  Some error)))"
  by pat_completeness auto
termination
proof (relation "measure (\<lambda>(cb, rp, ov, nv, nr, st). opt_vsize nv)", goal_cases)
  case 1
  show ?case by simp
next
  case (2 cb realParent oldVNode newVNode newRealElement st)
  then show ?case
    using vsize_child by (auto simp: opt_vsize_def split: option.splits)
qed

section \<open>Patcher: applying a list of changes\<close>

text \<open>
  \<open>applyChange\<close> works on the nodes its operation refers to, wherever they are in
  the live tree. The tree is the value of its root; a node is found in it by its
  identity, and a node that is not in the tree (a fresh copy, a detached node) is in the
  state in which the operation holds it.
\<close>

fun findNode :: "nat \<Rightarrow> node \<Rightarrow> node option"
  and findNodeIn :: "nat \<Rightarrow> node list \<Rightarrow> node option" where
  "findNode i (Element j t as cs) =
     (if i = j then Some (Element j t as cs) else findNodeIn i cs)"
| "findNode i (Text j v) = (if i = j then Some (Text j v) else None)"
| "findNode i (Comment j v) = (if i = j then Some (Comment j v) else None)"
| "findNodeIn i [] = None"
| "findNodeIn i (c # cs) = (case findNode i c of Some x \<Rightarrow> Some x | None \<Rightarrow> findNodeIn i cs)"

fun mapNode :: "nat \<Rightarrow> (node \<Rightarrow> node) \<Rightarrow> node \<Rightarrow> node" where
  "mapNode i f (Element j t as cs) =
     (if i = j then f (Element j t as cs) else Element j t as (map (mapNode i f) cs))"
| "mapNode i f (Text j v) = (if i = j then f (Text j v) else Text j v)"
| "mapNode i f (Comment j v) = (if i = j then f (Comment j v) else Comment j v)"

fun detachNode :: "nat \<Rightarrow> node \<Rightarrow> node" where
  "detachNode i (Element j t as cs) =
     Element j t as (map (detachNode i) (filter (\<lambda>c. nid c \<noteq> i) cs))"
| "detachNode i (Text j v) = Text j v"
| "detachNode i (Comment j v) = Comment j v"

fun parentOfNode :: "nat \<Rightarrow> node \<Rightarrow> node option"
  and parentOfNodeIn :: "nat \<Rightarrow> node list \<Rightarrow> node option" where
  "parentOfNode i (Element j t as cs) =
     (if list_ex (\<lambda>c. nid c = i) cs then Some (Element j t as cs) else parentOfNodeIn i cs)"
| "parentOfNode i (Text j v) = None"
| "parentOfNode i (Comment j v) = None"
| "parentOfNodeIn i [] = None"
| "parentOfNodeIn i (c # cs) =
     (case parentOfNode i c of Some x \<Rightarrow> Some x | None \<Rightarrow> parentOfNodeIn i cs)"

definition currentIn :: "node \<Rightarrow> node \<Rightarrow> node" where
  "currentIn root x = (case findNode (nid x) root of None \<Rightarrow> x | Some y \<Rightarrow> y)"

text \<open>
  The loop of the \<open>updateAttributes\<close> case: a \<open>newValue\<close> that is \<open>null\<close> or
  \<open>undefined\<close> removes the attribute, any other sets it. The attributes written
  before a throw stay written.
\<close>

fun applyAttrs :: "node \<Rightarrow> attr_change list \<Rightarrow> node \<times> js_error option" where
  "applyAttrs e [] = (e, None)"
| "applyAttrs e ((name, oldValue, newValue) # rest) =
     (case (case newValue of None \<Rightarrow> removeAttribute e name | Some v \<Rightarrow> setAttribute e name v) of
        Inl err \<Rightarrow> (e, Some err)
      | Inr e' \<Rightarrow> applyAttrs e' rest)"

text \<open>
  The media pass over a node that was just placed in the tree, written back in place.
\<close>

definition processPlaced :: "callback \<Rightarrow> node \<Rightarrow> node \<Rightarrow> node \<times> js_error option" where
  "processPlaced cb x root =
     (case processNewNodeMedia cb (currentIn root x) of
        (processed, err) \<Rightarrow> (mapNode (nid x) (\<lambda>_. processed) root, err))"

definition applyChange ::
  "callback \<Rightarrow> change \<Rightarrow> node \<Rightarrow> pstate \<Rightarrow> node \<times> pstate \<times> js_error option" where
  "applyChange cb change root st =
     (case change of
        UpdateText path element oldContent newContent \<Rightarrow>
          (case setTextContent (currentIn root element) newContent (nextId st) of
             (e', n') \<Rightarrow> (mapNode (nid element) (\<lambda>_. e') root, st\<lparr>nextId := n'\<rparr>, None))
      | UpdateAttributes path element changes \<Rightarrow>
          (case applyAttrs (currentIn root element) changes of
             (e', err) \<Rightarrow> (mapNode (nid element) (\<lambda>_. e') root, st, err))
      | Replace path oldElement newElement \<Rightarrow>
          (case parentOfNode (nid oldElement) root of
             None \<Rightarrow> (case processPlaced cb newElement root of (root', err) \<Rightarrow> (root', st, err))
           | Some parent \<Rightarrow>
               if nid parent \<in> set (idsOf (currentIn root newElement))
               then (root, st, Some (DOMException ''HierarchyRequestError''))
               else if nid newElement = nid oldElement
               then (case processPlaced cb newElement root of (root', err) \<Rightarrow> (root', st, err))
               else
                 (let new0 = currentIn root newElement;
                      root1 = detachNode (nid newElement) root;
                      root2 = mapNode (nid parent)
                        (\<lambda>p. setChildren p
                               (map (\<lambda>c. if nid c = nid oldElement then new0 else c) (childNodes p)))
                        root1
                  in case processPlaced cb newElement root2 of (root', err) \<Rightarrow> (root', st, err)))
      | InsertChild path parent child idx \<Rightarrow>
          (let parent0 = currentIn root parent;
               child0 = currentIn root child;
               childrenForInsertion = childNodes parent0
           in if nodeType parent0 \<noteq> ELEMENT_NODE \<or> nid parent \<in> set (idsOf child0)
              then (root, st, Some (DOMException ''HierarchyRequestError''))
              else if idx < length childrenForInsertion \<and>
                      nid (childrenForInsertion ! idx) = nid child
              then (case processPlaced cb child root of (root', err) \<Rightarrow> (root', st, err))
              else
                (let root1 = detachNode (nid child) root;
                     root2 = mapNode (nid parent)
                       (\<lambda>p. case (if idx \<ge> length childrenForInsertion
                                    then appendChild p child0
                                    else insertBefore p child0 (at childrenForInsertion idx)) of
                               Inl e \<Rightarrow> p
                             | Inr p' \<Rightarrow> p')
                       root1
                 in case processPlaced cb child root2 of (root', err) \<Rightarrow> (root', st, err)))
      | RemoveChild path parent child idx \<Rightarrow>
          (case child of
             None \<Rightarrow> (root, st, None)
           | Some c \<Rightarrow>
               if list_ex (\<lambda>x. nid x = nid c) (childNodes (currentIn root parent))
               then (mapNode (nid parent) (\<lambda>p. setChildren p (without (childNodes p) c)) root,
                     st, None)
               else (root, st, None))
      | Remove path element \<Rightarrow>
          (case parentOfNode (nid element) root of
             None \<Rightarrow> (root, st, None)
           | Some parent \<Rightarrow> (detachNode (nid element) root, st, None))
      | Insert path element \<Rightarrow> (root, st, None)
      | Other t \<Rightarrow> (root, st, None))"

text \<open>
  \<open>for (const change of sortedChanges) { try { this.applyChange(change) }
  catch (error) { console.error(`Error applying ${change.type}:`, error) } }\<close>
\<close>

fun applyAll :: "callback \<Rightarrow> change list \<Rightarrow> node \<Rightarrow> pstate \<Rightarrow> node \<times> pstate" where
  "applyAll cb [] root st = (root, st)"
| "applyAll cb (change # rest) root st =
     (case applyChange cb change root st of
        (root1, st1, None) \<Rightarrow> applyAll cb rest root1 st1
      | (root1, st1, Some error) \<Rightarrow>
          applyAll cb rest root1
            (st1\<lparr>errorLog := errorLog st1 @ [(''Error applying '' @ ctype change @ '':'', error)]\<rparr>))"

definition applyChanges :: "callback \<Rightarrow> change list \<Rightarrow> node \<Rightarrow> pstate \<Rightarrow> node \<times> pstate" where
  "applyChanges cb changes root st = applyAll cb (sortedChanges changes) root st"

section \<open>Properties of Patcher.applyChanges\<close>

text \<open>
  C1. The claim: a batch is executed in the order removeChild, remove, updateText,
  updateAttributes, replace, insertChild, insert, so every removeChild runs before every
  other known operation. The code gives removeChild the value \<open>0\<close> in its table and
  then reads the table with \<open>|| 10\<close>, which turns that \<open>0\<close> into \<open>10\<close>: a
  removeChild sorts with the unknown types, after every other known operation. In the
  batch below the insertion of a new first child is executed before the removal of the
  old one.
\<close>

theorem applyChanges_removeChild_runs_last:
  "priority (RemoveChild p par old_child 0) = 10 \<and>
   priority (InsertChild p par new_child 0) = 5 \<and>
   sortedChanges
     [RemoveChild [] (Element 1 ''DIV'' [] [Text 2 ''a'']) (Some (Text 2 ''a'')) 0,
      InsertChild [] (Element 1 ''DIV'' [] [Text 2 ''a'']) (Text 3 ''b'') 0] =
     [InsertChild [] (Element 1 ''DIV'' [] [Text 2 ''a'']) (Text 3 ''b'') 0,
      RemoveChild [] (Element 1 ''DIV'' [] [Text 2 ''a'']) (Some (Text 2 ''a'')) 0]"
  by (simp add: sortedChanges_def priority_def order_def)

section \<open>Properties of the StructuralComparator\<close>
















text \<open>
  C2. The claim: \<open>shouldReplaceAllChildren\<close> returns \<open>false\<close> whenever either list
  holds a heavy element, however much the lengths differ. The code tests the length
  difference first and returns \<open>true\<close> above 10 before it looks for heavy elements. An
  element keeps its iframe and loses eleven text nodes: the answer is \<open>true\<close>, and
  \<open>compareElements\<close> emits a removeChild for the unchanged iframe (and for each of the
  text nodes) and an insertChild of a copy of it.
\<close>

theorem shouldReplaceAllChildren_ignores_heavy_above_10:
  "isHeavyElement (Some (Element 2 ''IFRAME'' [(''src'', ''https://example.com'')] [])) \<and>
   shouldReplaceAllChildren
     (Element 2 ''IFRAME'' [(''src'', ''https://example.com'')] [] #
        map (\<lambda>i. Text (3 + i) ''x'') [0..<11])
     [Element 21 ''IFRAME'' [(''src'', ''https://example.com'')] []] \<and>
   (case compareElements
      (Some (Element 1 ''DIV'' []
         (Element 2 ''IFRAME'' [(''src'', ''https://example.com'')] [] #
            map (\<lambda>i. Text (3 + i) ''x'') [0..<11])))
      (Some (Element 20 ''DIV'' []
         [Element 21 ''IFRAME'' [(''src'', ''https://example.com'')] []])) [] 100 of
      Inl e \<Rightarrow> False
    | Inr (changes, n) \<Rightarrow>
        length changes = 13 \<and>
        changes ! 11 =
          RemoveChild ''div''
            (Element 1 ''DIV'' []
               (Element 2 ''IFRAME'' [(''src'', ''https://example.com'')] [] #
                  map (\<lambda>i. Text (3 + i) ''x'') [0..<11]))
            (Some (Element 2 ''IFRAME'' [(''src'', ''https://example.com'')] [])) 0 \<and>
        changes ! 12 =
          InsertChild ''div''
            (Element 1 ''DIV'' []
               (Element 2 ''IFRAME'' [(''src'', ''https://example.com'')] [] #
                  map (\<lambda>i. Text (3 + i) ''x'') [0..<11]))
            (Element 100 ''IFRAME'' [(''src'', ''https://example.com'')] []) 0)"
  by code_simp

section \<open>Properties of the Differ\<close>

lemma forEach_unchanged:
  "(\<And>i. i \<in> set xs \<Longrightarrow> body i s = Inr s) \<Longrightarrow> forEach xs body s = Inr s"
  by (induction xs) auto

lemma compareAttributes_same: "compareAttributes e e = []"
  by (simp add: compareAttributes_def)

lemma isSimpleInsertionOrDeletion_same_length:
  "length xs = length ys \<Longrightarrow> isSimpleInsertionOrDeletion xs ys = None"
  by (simp add: isSimpleInsertionOrDeletion_def)

lemma significantDifference_same: "\<not> significantDifference c c"
  by (simp add: significantDifference_def)

lemma shouldReplaceAllChildren_same: "\<not> shouldReplaceAllChildren cs cs"
  by (simp add: shouldReplaceAllChildren_def Let_def significantDifference_same)

lemma compareElements_same: "compareElements (Some t) (Some t) path n = Inr ([], n)"
proof (induction t arbitrary: path n)
  case (Element i tag as cs)
  have cc: "compareChildren (Element i tag as cs) (Element i tag as cs) p m = Inr ([], m)" for p m
    apply (subst compareChildren.simps)
    apply (simp add: isSimpleInsertionOrDeletion_same_length shouldReplaceAllChildren_same
        del: compareElements.simps)
    apply (rule forEach_unchanged)
    apply (simp add: at_def Element.IH del: compareElements.simps)
    done
  show ?case
    by (simp add: cc compareAttributes_same ELEMENT_NODE_def TEXT_NODE_def
        del: isHeavyElement.simps compareChildren.simps)
qed (simp_all add: ELEMENT_NODE_def TEXT_NODE_def)


text \<open>
  C5. Comparing a tree with itself gives the empty list of changes, at every depth: no
  insert, remove, replace, text, attribute or child operation, and no node is cloned.
\<close>

theorem compareElements_idempotent:
  "compareElements (Some t) (Some t) path n = Inr ([], n)"
  by (rule compareElements_same)

theorem compareElements_idempotent_witness:
  "compareElements
     (Some (Element 1 ''DIV'' [(''class'', ''box'')]
        [Text 2 ''hello'', Element 3 ''IFRAME'' [(''src'', ''https://example.com'')] [],
         Element 4 ''P'' [] [Text 5 ''a'', Comment 6 ''note'']]))
     (Some (Element 1 ''DIV'' [(''class'', ''box'')]
        [Text 2 ''hello'', Element 3 ''IFRAME'' [(''src'', ''https://example.com'')] [],
         Element 4 ''P'' [] [Text 5 ''a'', Comment 6 ''note'']]))
     [] 7 = Inr ([], 7)"
  by (rule compareElements_idempotent)

lemma heavy_stops:
  "isHeavyElement (Some old) \<Longrightarrow> tagName old = tagName new \<Longrightarrow>
   compareElements (Some old) (Some new) path n = Inr ([], n)"
proof -
  assume h: "isHeavyElement (Some old)" and t: "tagName old = tagName new"
  from h obtain i tg as cs where o: "old = Element i tg as cs"
    by (cases old) (simp_all add: ELEMENT_NODE_def)
  with t obtain j bs ds where n: "new = Element j tg bs ds"
    by (cases new) simp_all
  from h show ?thesis
    unfolding o n by (simp add: ELEMENT_NODE_def TEXT_NODE_def del: isHeavyElement.simps)
qed


text \<open>
  C3. The claim: \<open>compareElements\<close> on two elements of the same tag emits nothing when
  either of them is heavy, also when only the new one is. The code tests the old element
  only. Here the old image has a file path and the new one a \<open>data:\<close> URL, so only the
  new one is heavy, and the attribute change is emitted.
\<close>

theorem compareElements_new_heavy_counterexample:
  "\<not> isHeavyElement (Some (Element 1 ''IMG'' [(''src'', ''a.png'')] [])) \<and>
   isHeavyElement (Some (Element 2 ''IMG'' [(''src'', ''data:x'')] [])) \<and>
   tagName (Element 1 ''IMG'' [(''src'', ''a.png'')] []) =
     tagName (Element 2 ''IMG'' [(''src'', ''data:x'')] []) \<and>
   compareElements (Some (Element 1 ''IMG'' [(''src'', ''a.png'')] []))
     (Some (Element 2 ''IMG'' [(''src'', ''data:x'')] [])) [] 10 =
     Inr ([UpdateAttributes ''img'' (Element 1 ''IMG'' [(''src'', ''a.png'')] [])
             [(''src'', Some ''a.png'', Some ''data:x'')]], 10)"
  by code_simp

lemma idsOf_simps [simp]:
  "set (idsOf (Element i t as cs)) = insert i (\<Union>c\<in>set cs. set (idsOf c))"
  "idsOf (Text i v) = [i]"
  "idsOf (Comment i v) = [i]"
  by (auto simp: idsOf_def)




definition changeOk :: "node set \<Rightarrow> node set \<Rightarrow> nat \<Rightarrow> nat \<Rightarrow> change \<Rightarrow> bool" where
  "changeOk Old New n m c =
     ((\<forall>p\<in>set (clonedNodes c). (\<exists>x\<in>New. eraseIds p = eraseIds x) \<and> set (idsOf p) \<subseteq> {n..<m}) \<and>
      set (referencedNodes c) \<subseteq> Old)"

definition loopInv :: "change list \<Rightarrow> node set \<Rightarrow> node set \<Rightarrow> nat \<Rightarrow> change list \<times> nat \<Rightarrow> bool" where
  "loopInv init Old New n s = (n \<le> snd s \<and> (\<forall>c\<in>set (fst s). c \<in> set init \<or> changeOk Old New n (snd s) c))"





















lemma loopInv_empty: "loopInv [] Old New n (ch, m) \<Longrightarrow> n \<le> m \<and> (\<forall>c\<in>set ch. changeOk Old New n m c)"
  by (simp add: loopInv_def)











lemma forEach_total:
  "(\<And>i s. i \<in> set xs \<Longrightarrow> \<exists>s'. body i s = Inr s') \<Longrightarrow> \<exists>s'. forEach xs body s = Inr s'"
proof (induction xs arbitrary: s)
  case Nil
  show ?case by simp
next
  case (Cons i xs)
  from Cons.prems[of i s] obtain t where t: "body i s = Inr t" by auto
  from Cons.IH[of t] Cons.prems obtain s' where "forEach xs body t = Inr s'" by auto
  with t show ?case by simp
qed

definition inRange :: "change_kind \<Rightarrow> nat \<Rightarrow> nat \<Rightarrow> node list \<Rightarrow> node list \<Rightarrow> bool" where
  "inRange ty pos cnt olds news =
     (case ty of
        Insertion \<Rightarrow> length news = length olds + cnt \<and> pos \<le> length olds
      | Deletion \<Rightarrow> length olds = length news + cnt \<and> pos \<le> length news)"

lemma find_upt_Some_lt: "find P [0..<n] = Some p \<Longrightarrow> p < n"
  by (auto simp: find_Some_iff)

lemma isSimple_inRange:
  "isSimpleInsertionOrDeletion olds news = Some sc \<Longrightarrow>
   inRange (kind sc) (position sc) (count sc) olds news"
  by (auto simp: isSimpleInsertionOrDeletion_def checkSimpleInsertionAnywhere_def
      checkMultipleInsertionsAnywhere_def checkSimpleDeletionAnywhere_def
      checkMultipleDeletionsAnywhere_def inRange_def less_Suc_eq_le
      dest!: find_upt_Some_lt split: if_splits simp del: upt_Suc)

definition CE_total where
  "CE_total old new path n = (\<exists>r. compareElements old new path n = Inr r)"

definition CC_total where
  "CC_total oldElement newElement path n = (\<exists>r. compareChildren oldElement newElement path n = Inr r)"

definition HS_total where
  "HS_total olds news parent path info n =
     (inRange (kind info) (position info) (count info) olds news \<longrightarrow>
      (\<exists>r. handleStructuralChange olds news parent path info n = Inr r))"

definition CR_total where
  "CR_total olds news changes path ty pos cnt n =
     (inRange ty pos cnt olds news \<longrightarrow>
      (\<exists>r. compareRemainingChildren olds news changes path ty pos cnt n = Inr r))"

lemma step_total:
  assumes a: "at olds i = Some x" and b: "at news j = Some y"
    and IH: "\<And>sk. shouldSkipComparison (at olds i) (at news j) = Inr sk \<Longrightarrow> \<not> sk \<Longrightarrow>
        CE_total (at olds i) (at news j) p k"
  shows "\<exists>s'. (case shouldSkipComparison (at olds i) (at news j) of
                  Inl e \<Rightarrow> Inl e
                | Inr skip \<Rightarrow>
                    if skip then Inr (changes, k)
                    else (case compareElements (at olds i) (at news j) p k of
                            Inl e \<Rightarrow> Inl e
                          | Inr (childChanges, n') \<Rightarrow> Inr (changes @ childChanges, n'))) = Inr s'"
proof -
  obtain sk where sk: "shouldSkipComparison (at olds i) (at news j) = Inr sk"
    using a b by simp
  show ?thesis
  proof (cases sk)
    case True
    with sk show ?thesis by simp
  next
    case False
    from IH[OF sk False] obtain r where "compareElements (at olds i) (at news j) p k = Inr r"
      by (auto simp: CE_total_def)
    with sk False show ?thesis by (cases r) (simp del: compareElements.simps)
  qed
qed

lemma at_Some_iff: "(\<exists>x. at xs i = Some x) \<longleftrightarrow> i < length xs"
  by (simp add: at_def)


lemma CE_total_Some_Some:
  assumes IH: "nodeType oldElement = nodeType newElement \<Longrightarrow> nodeType oldElement \<noteq> TEXT_NODE \<Longrightarrow>
      nodeType oldElement = ELEMENT_NODE \<Longrightarrow> tagName oldElement = tagName newElement \<Longrightarrow>
      \<not> isHeavyElement (Some oldElement) \<Longrightarrow>
      CC_total oldElement newElement
        (path @ (if path \<noteq> [] then '' > '' else []) @
           toLowerCase (case tagName oldElement of Some t \<Rightarrow> t | None \<Rightarrow> [])) n"
  shows "CE_total (Some oldElement) (Some newElement) path n"
proof (cases "nodeType oldElement = nodeType newElement \<and> nodeType oldElement \<noteq> TEXT_NODE \<and>
      nodeType oldElement = ELEMENT_NODE \<and> tagName oldElement = tagName newElement \<and>
      \<not> isHeavyElement (Some oldElement)")
  case True
  with IH obtain r where "compareChildren oldElement newElement
        (path @ (if path \<noteq> [] then '' > '' else []) @
           toLowerCase (case tagName oldElement of Some t \<Rightarrow> t | None \<Rightarrow> [])) n = Inr r"
    by (auto simp: CC_total_def)
  with True show ?thesis
    unfolding CE_total_def
    by (cases r) (simp add: Let_def del: isHeavyElement.simps compareChildren.simps)
next
  case False
  then show ?thesis
    unfolding CE_total_def
    by (auto simp add: Let_def simp del: isHeavyElement.simps compareChildren.simps
        split: prod.splits)
qed

lemma CR_total_case:
  assumes A: "\<And>i y b. ty = Insertion \<Longrightarrow> i < pos \<Longrightarrow>
        shouldSkipComparison (at olds i) (at news i) = Inr b \<Longrightarrow> \<not> b \<Longrightarrow>
        CE_total (at olds i) (at news i) (indexPath path i) y"
    and B: "\<And>i y b st. ty = Insertion \<Longrightarrow>
        forEach [0..<pos]
            (\<lambda>i (changes, n).
                case shouldSkipComparison (at olds i) (at news i) of
                  Inl e \<Rightarrow> Inl e
                | Inr skip \<Rightarrow>
                    if skip then Inr (changes, n)
                    else (case compareElements (at olds i) (at news i) (indexPath path i) n of
                            Inl e \<Rightarrow> Inl e
                          | Inr (childChanges, n') \<Rightarrow> Inr (changes @ childChanges, n')))
            (changes, n) = Inr st \<Longrightarrow>
        pos \<le> i \<Longrightarrow> i < length olds \<Longrightarrow>
        shouldSkipComparison (at olds i) (at news (i + cnt)) = Inr b \<Longrightarrow> \<not> b \<Longrightarrow>
        CE_total (at olds i) (at news (i + cnt)) (indexPath path (i + cnt)) y"
    and C: "\<And>i y b. ty = Deletion \<Longrightarrow> i < pos \<Longrightarrow>
        shouldSkipComparison (at olds i) (at news i) = Inr b \<Longrightarrow> \<not> b \<Longrightarrow>
        CE_total (at olds i) (at news i) (indexPath path i) y"
    and D: "\<And>i y b st. ty = Deletion \<Longrightarrow>
        forEach [0..<pos]
            (\<lambda>i (changes, n).
                case shouldSkipComparison (at olds i) (at news i) of
                  Inl e \<Rightarrow> Inl e
                | Inr skip \<Rightarrow>
                    if skip then Inr (changes, n)
                    else (case compareElements (at olds i) (at news i) (indexPath path i) n of
                            Inl e \<Rightarrow> Inl e
                          | Inr (childChanges, n') \<Rightarrow> Inr (changes @ childChanges, n')))
            (changes, n) = Inr st \<Longrightarrow>
        pos \<le> i \<Longrightarrow> i < length news \<Longrightarrow>
        shouldSkipComparison (at olds (i + cnt)) (at news i) = Inr b \<Longrightarrow> \<not> b \<Longrightarrow>
        CE_total (at olds (i + cnt)) (at news i) (indexPath path i) y"
  shows "CR_total olds news changes path ty pos cnt n"
  unfolding CR_total_def
proof (intro impI)
  assume rng: "inRange ty pos cnt olds news"
  show "\<exists>r. compareRemainingChildren olds news changes path ty pos cnt n = Inr r"
  proof (cases ty)
    case Insertion
    with rng have len: "length news = length olds + cnt" "pos \<le> length olds"
      by (simp_all add: inRange_def)
    have "\<exists>st. forEach [0..<pos]
            (\<lambda>i (changes, n).
                case shouldSkipComparison (at olds i) (at news i) of
                  Inl e \<Rightarrow> Inl e
                | Inr skip \<Rightarrow>
                    if skip then Inr (changes, n)
                    else (case compareElements (at olds i) (at news i) (indexPath path i) n of
                            Inl e \<Rightarrow> Inl e
                          | Inr (childChanges, n') \<Rightarrow> Inr (changes @ childChanges, n')))
            (changes, n) = Inr st"
    proof (rule forEach_total)
      fix i and s :: "change list \<times> nat" assume i: "i \<in> set [0..<pos]"
      obtain c k where s: "s = (c, k)" by (cases s)
      from i len have "i < length olds" "i < length news" by auto
      then obtain x y where xy: "at olds i = Some x" "at news i = Some y" by (auto simp: at_def)
      from step_total[OF xy, where p="indexPath path i" and k=k and changes=c] A[OF Insertion] i
      show "\<exists>s'. (case s of (changes, n) \<Rightarrow>
                case shouldSkipComparison (at olds i) (at news i) of
                  Inl e \<Rightarrow> Inl e
                | Inr skip \<Rightarrow>
                    if skip then Inr (changes, n)
                    else (case compareElements (at olds i) (at news i) (indexPath path i) n of
                            Inl e \<Rightarrow> Inl e
                          | Inr (childChanges, n') \<Rightarrow> Inr (changes @ childChanges, n'))) = Inr s'"
        unfolding s by auto
    qed
    then obtain st where l1: "forEach [0..<pos]
            (\<lambda>i (changes, n).
                case shouldSkipComparison (at olds i) (at news i) of
                  Inl e \<Rightarrow> Inl e
                | Inr skip \<Rightarrow>
                    if skip then Inr (changes, n)
                    else (case compareElements (at olds i) (at news i) (indexPath path i) n of
                            Inl e \<Rightarrow> Inl e
                          | Inr (childChanges, n') \<Rightarrow> Inr (changes @ childChanges, n')))
            (changes, n) = Inr st" ..
    have "\<exists>r. forEach [pos..<length olds]
            (\<lambda>i (changes, n).
                case shouldSkipComparison (at olds i) (at news (i + cnt)) of
                  Inl e \<Rightarrow> Inl e
                | Inr skip \<Rightarrow>
                    if skip then Inr (changes, n)
                    else (case compareElements (at olds i) (at news (i + cnt))
                                 (indexPath path (i + cnt)) n of
                            Inl e \<Rightarrow> Inl e
                          | Inr (childChanges, n') \<Rightarrow> Inr (changes @ childChanges, n')))
            st = Inr r"
    proof (rule forEach_total)
      fix i and s :: "change list \<times> nat" assume i: "i \<in> set [pos..<length olds]"
      obtain c k where s: "s = (c, k)" by (cases s)
      from i len have "i < length olds" "i + cnt < length news" by auto
      then obtain x y where xy: "at olds i = Some x" "at news (i + cnt) = Some y"
        by (auto simp: at_def)
      from step_total[OF xy, where p="indexPath path (i + cnt)" and k=k and changes=c] B[OF Insertion l1] i
      show "\<exists>s'. (case s of (changes, n) \<Rightarrow>
                case shouldSkipComparison (at olds i) (at news (i + cnt)) of
                  Inl e \<Rightarrow> Inl e
                | Inr skip \<Rightarrow>
                    if skip then Inr (changes, n)
                    else (case compareElements (at olds i) (at news (i + cnt))
                                 (indexPath path (i + cnt)) n of
                            Inl e \<Rightarrow> Inl e
                          | Inr (childChanges, n') \<Rightarrow> Inr (changes @ childChanges, n'))) = Inr s'"
        unfolding s by auto
    qed
    with l1 Insertion show ?thesis by (simp del: compareElements.simps)
  next
    case Deletion
    with rng have len: "length olds = length news + cnt" "pos \<le> length news"
      by (simp_all add: inRange_def)
    have "\<exists>st. forEach [0..<pos]
            (\<lambda>i (changes, n).
                case shouldSkipComparison (at olds i) (at news i) of
                  Inl e \<Rightarrow> Inl e
                | Inr skip \<Rightarrow>
                    if skip then Inr (changes, n)
                    else (case compareElements (at olds i) (at news i) (indexPath path i) n of
                            Inl e \<Rightarrow> Inl e
                          | Inr (childChanges, n') \<Rightarrow> Inr (changes @ childChanges, n')))
            (changes, n) = Inr st"
    proof (rule forEach_total)
      fix i and s :: "change list \<times> nat" assume i: "i \<in> set [0..<pos]"
      obtain c k where s: "s = (c, k)" by (cases s)
      from i len have "i < length olds" "i < length news" by auto
      then obtain x y where xy: "at olds i = Some x" "at news i = Some y" by (auto simp: at_def)
      from step_total[OF xy, where p="indexPath path i" and k=k and changes=c] C[OF Deletion] i
      show "\<exists>s'. (case s of (changes, n) \<Rightarrow>
                case shouldSkipComparison (at olds i) (at news i) of
                  Inl e \<Rightarrow> Inl e
                | Inr skip \<Rightarrow>
                    if skip then Inr (changes, n)
                    else (case compareElements (at olds i) (at news i) (indexPath path i) n of
                            Inl e \<Rightarrow> Inl e
                          | Inr (childChanges, n') \<Rightarrow> Inr (changes @ childChanges, n'))) = Inr s'"
        unfolding s by auto
    qed
    then obtain st where l1: "forEach [0..<pos]
            (\<lambda>i (changes, n).
                case shouldSkipComparison (at olds i) (at news i) of
                  Inl e \<Rightarrow> Inl e
                | Inr skip \<Rightarrow>
                    if skip then Inr (changes, n)
                    else (case compareElements (at olds i) (at news i) (indexPath path i) n of
                            Inl e \<Rightarrow> Inl e
                          | Inr (childChanges, n') \<Rightarrow> Inr (changes @ childChanges, n')))
            (changes, n) = Inr st" ..
    have "\<exists>r. forEach [pos..<length news]
            (\<lambda>i (changes, n).
                case shouldSkipComparison (at olds (i + cnt)) (at news i) of
                  Inl e \<Rightarrow> Inl e
                | Inr skip \<Rightarrow>
                    if skip then Inr (changes, n)
                    else (case compareElements (at olds (i + cnt)) (at news i)
                                 (indexPath path i) n of
                            Inl e \<Rightarrow> Inl e
                          | Inr (childChanges, n') \<Rightarrow> Inr (changes @ childChanges, n')))
            st = Inr r"
    proof (rule forEach_total)
      fix i and s :: "change list \<times> nat" assume i: "i \<in> set [pos..<length news]"
      obtain c k where s: "s = (c, k)" by (cases s)
      from i len have "i + cnt < length olds" "i < length news" by auto
      then obtain x y where xy: "at olds (i + cnt) = Some x" "at news i = Some y"
        by (auto simp: at_def)
      from step_total[OF xy, where p="indexPath path i" and k=k and changes=c] D[OF Deletion l1] i
      show "\<exists>s'. (case s of (changes, n) \<Rightarrow>
                case shouldSkipComparison (at olds (i + cnt)) (at news i) of
                  Inl e \<Rightarrow> Inl e
                | Inr skip \<Rightarrow>
                    if skip then Inr (changes, n)
                    else (case compareElements (at olds (i + cnt)) (at news i)
                                 (indexPath path i) n of
                            Inl e \<Rightarrow> Inl e
                          | Inr (childChanges, n') \<Rightarrow> Inr (changes @ childChanges, n'))) = Inr s'"
        unfolding s by auto
    qed
    with l1 Deletion show ?thesis by (simp del: compareElements.simps)
  qed
qed


lemma HS_total_case:
  assumes A: "\<And>x y. kind info = Insertion \<Longrightarrow>
        forEach [0..<count info]
            (\<lambda>i (changes, n).
                case at news (position info + i) of
                  None \<Rightarrow> Inl TypeError
                | Some newChild \<Rightarrow>
                    (case cloneNode newChild n of
                       (c, n') \<Rightarrow>
                         Inr (changes @ [InsertChild path parent c (position info + i)], n')))
            ([], n) = Inr (x, y) \<Longrightarrow>
        CR_total olds news x path Insertion (position info) (count info) y"
    and B: "kind info = Deletion \<Longrightarrow>
        CR_total olds news
          (map (\<lambda>i. RemoveChild path parent (at olds (position info + i)) (position info + i))
             [0..<count info])
          path Deletion (position info) (count info) n"
  shows "HS_total olds news parent path info n"
  unfolding HS_total_def
proof (intro impI)
  assume rng: "inRange (kind info) (position info) (count info) olds news"
  show "\<exists>r. handleStructuralChange olds news parent path info n = Inr r"
  proof (cases "kind info")
    case Insertion
    with rng have len: "length news = length olds + count info" "position info \<le> length olds"
      by (simp_all add: inRange_def)
    have "\<exists>st. forEach [0..<count info]
            (\<lambda>i (changes, n).
                case at news (position info + i) of
                  None \<Rightarrow> Inl TypeError
                | Some newChild \<Rightarrow>
                    (case cloneNode newChild n of
                       (c, n') \<Rightarrow>
                         Inr (changes @ [InsertChild path parent c (position info + i)], n')))
            ([], n) = Inr st"
    proof (rule forEach_total)
      fix i and s :: "change list \<times> nat" assume i: "i \<in> set [0..<count info]"
      obtain c k where s: "s = (c, k)" by (cases s)
      from i len have "position info + i < length news" by auto
      then obtain x where x: "at news (position info + i) = Some x" by (auto simp: at_def)
      show "\<exists>s'. (case s of (changes, n) \<Rightarrow>
                case at news (position info + i) of
                  None \<Rightarrow> Inl TypeError
                | Some newChild \<Rightarrow>
                    (case cloneNode newChild n of
                       (c, n') \<Rightarrow>
                         Inr (changes @ [InsertChild path parent c (position info + i)], n'))) = Inr s'"
        unfolding s using x by (auto split: prod.splits)
    qed
    then obtain x y where l: "forEach [0..<count info]
            (\<lambda>i (changes, n).
                case at news (position info + i) of
                  None \<Rightarrow> Inl TypeError
                | Some newChild \<Rightarrow>
                    (case cloneNode newChild n of
                       (c, n') \<Rightarrow>
                         Inr (changes @ [InsertChild path parent c (position info + i)], n')))
            ([], n) = Inr (x, y)" by auto
    from A[OF Insertion l] rng Insertion obtain r where
      "compareRemainingChildren olds news x path Insertion (position info) (count info) y = Inr r"
      by (auto simp: CR_total_def)
    with l Insertion show ?thesis by (simp del: compareRemainingChildren.simps)
  next
    case Deletion
    from B[OF Deletion] rng Deletion show ?thesis
      by (auto simp: CR_total_def simp del: compareRemainingChildren.simps)
  qed
qed

lemma CC_total_case:
  assumes A: "\<And>i y x2 x2a.
        isSimpleInsertionOrDeletion (childNodes oldElement) (childNodes newElement) = None \<Longrightarrow>
        \<not> shouldReplaceAllChildren (childNodes oldElement) (childNodes newElement) \<Longrightarrow>
        at (childNodes oldElement) i = Some x2 \<Longrightarrow> at (childNodes newElement) i = Some x2a \<Longrightarrow>
        CE_total (Some x2) (Some x2a) (indexPath path i) y"
    and B: "\<And>sc. isSimpleInsertionOrDeletion (childNodes oldElement) (childNodes newElement) = Some sc \<Longrightarrow>
        HS_total (childNodes oldElement) (childNodes newElement) oldElement path sc n"
  shows "CC_total oldElement newElement path n"
  unfolding CC_total_def
proof (cases "isSimpleInsertionOrDeletion (childNodes oldElement) (childNodes newElement)")
  case (Some sc)
  from B[OF Some] isSimple_inRange[OF Some] Some
  show "\<exists>r. compareChildren oldElement newElement path n = Inr r"
    by (auto simp: HS_total_def simp del: handleStructuralChange.simps)
next
  case None
  let ?olds = "childNodes oldElement" and ?news = "childNodes newElement"
  show "\<exists>r. compareChildren oldElement newElement path n = Inr r"
  proof (cases "shouldReplaceAllChildren ?olds ?news")
    case True
    have "\<exists>r. forEach [0..<length ?news]
                 (\<lambda>i (changes, n).
                    case cloneNode (?news ! i) n of
                      (c, n') \<Rightarrow> Inr (changes @ [InsertChild path oldElement c i], n'))
                 (map (\<lambda>i. RemoveChild path oldElement (Some (?olds ! i)) i)
                    (rev [0..<length ?olds]), n) = Inr r"
      by (rule forEach_total) (auto split: prod.splits)
    with None True show ?thesis by (simp add: Let_def)
  next
    case False
    have "\<exists>r. forEach [0..<max (length ?olds) (length ?news)]
                 (\<lambda>i (changes, n).
                    case (at ?olds i, at ?news i) of
                      (None, Some newChild) \<Rightarrow>
                        (case cloneNode newChild n of
                           (c, n') \<Rightarrow> Inr (changes @ [InsertChild path oldElement c i], n'))
                    | (Some oldChild, None) \<Rightarrow>
                        Inr (changes @ [RemoveChild path oldElement (Some oldChild) i], n)
                    | (Some oldChild, Some newChild) \<Rightarrow>
                        (case compareElements (Some oldChild) (Some newChild) (indexPath path i) n of
                           Inl e \<Rightarrow> Inl e
                         | Inr (childChanges, n') \<Rightarrow> Inr (changes @ childChanges, n'))
                    | (None, None) \<Rightarrow> Inr (changes, n))
                 ([], n) = Inr r"
    proof (rule forEach_total)
      fix i and s :: "change list \<times> nat"
      obtain c k where s: "s = (c, k)" by (cases s)
      show "\<exists>s'. (case s of (changes, n) \<Rightarrow>
                    case (at ?olds i, at ?news i) of
                      (None, Some newChild) \<Rightarrow>
                        (case cloneNode newChild n of
                           (c, n') \<Rightarrow> Inr (changes @ [InsertChild path oldElement c i], n'))
                    | (Some oldChild, None) \<Rightarrow>
                        Inr (changes @ [RemoveChild path oldElement (Some oldChild) i], n)
                    | (Some oldChild, Some newChild) \<Rightarrow>
                        (case compareElements (Some oldChild) (Some newChild) (indexPath path i) n of
                           Inl e \<Rightarrow> Inl e
                         | Inr (childChanges, n') \<Rightarrow> Inr (changes @ childChanges, n'))
                    | (None, None) \<Rightarrow> Inr (changes, n)) = Inr s'"
      proof (cases "at ?olds i")
        case oN: None
        then show ?thesis unfolding s by (auto split: option.splits prod.splits)
      next
        case oS: (Some x)
        show ?thesis
        proof (cases "at ?news i")
          case None
          with oS show ?thesis unfolding s by simp
        next
          case (Some y)
          from A[OF \<open>isSimpleInsertionOrDeletion ?olds ?news = None\<close> False oS Some, of k]
          obtain r where "compareElements (Some x) (Some y) (indexPath path i) k = Inr r"
            by (auto simp: CE_total_def)
          with oS Some show ?thesis unfolding s
            by (cases r) (simp del: compareElements.simps)
        qed
      qed
    qed
    with None False show ?thesis by (simp add: Let_def del: compareElements.simps)
  qed
qed

lemma total_all:
  "CE_total old new path n"
  "CC_total oe ne p2 n2"
  "HS_total olds news parent p3 info n3"
  "CR_total olds' news' changes p4 ty pos cnt n4"
proof (induction old new path n and oe ne p2 n2 and olds news parent p3 info n3
    and olds' news' changes p4 ty pos cnt n4
    rule: compareElements_compareChildren_handleStructuralChange_compareRemainingChildren.induct)
  case (1 path n)
  show ?case by (simp add: CE_total_def)
next
  case (2 newElement path n)
  show ?case by (simp add: CE_total_def split: prod.splits)
next
  case (3 oldElement path n)
  show ?case by (simp add: CE_total_def)
next
  case (4 oldElement newElement path n)
  show ?case
    by (rule CE_total_Some_Some) (use 4 in blast)
next
  case (5 oldElement newElement path n)
  show ?case
  proof (rule CC_total_case)
    fix i y x2 x2a
    assume none: "isSimpleInsertionOrDeletion (childNodes oldElement) (childNodes newElement) = None"
      and nr: "\<not> shouldReplaceAllChildren (childNodes oldElement) (childNodes newElement)"
      and a1: "at (childNodes oldElement) i = Some x2"
      and a2: "at (childNodes newElement) i = Some x2a"
    from a1 have "i \<in> set [0..<max (length (childNodes oldElement)) (length (childNodes newElement))]"
      by (auto simp: at_def split: if_splits)
    note X = 5(1)[OF refl refl none nr this]
    from X[of "[]" y "([], y)" "at (childNodes oldElement) i"
        "at (childNodes newElement) i" x2 x2a] a1 a2
    show "CE_total (Some x2) (Some x2a) (indexPath path i) y" by simp
  next
    fix sc
    assume "isSimpleInsertionOrDeletion (childNodes oldElement) (childNodes newElement) = Some sc"
    from 5(2)[OF refl refl this]
    show "HS_total (childNodes oldElement) (childNodes newElement) oldElement path sc n" .
  qed
next
  case (6 oldChildren newChildren parent path changeInfo n)
  show ?case
    by (rule HS_total_case) (use 6 in auto)
next
  case (7 oldChildren newChildren changes path changeType changePos changeCount n)
  show ?case
  proof (rule CR_total_case)
    fix i y b
    assume "changeType = Insertion" "i < changePos"
      "shouldSkipComparison (at oldChildren i) (at newChildren i) = Inr b" "\<not> b"
    then show "CE_total (at oldChildren i) (at newChildren i) (indexPath path i) y"
      using 7(1)[of i "[]" y "([], y)" b] by simp
  next
    fix i y b st
    assume "changeType = Insertion"
      "forEach [0..<changePos]
            (\<lambda>i (changes, n).
                case shouldSkipComparison (at oldChildren i) (at newChildren i) of
                  Inl e \<Rightarrow> Inl e
                | Inr skip \<Rightarrow>
                    if skip then Inr (changes, n)
                    else (case compareElements (at oldChildren i) (at newChildren i) (indexPath path i) n of
                            Inl e \<Rightarrow> Inl e
                          | Inr (childChanges, n') \<Rightarrow> Inr (changes @ childChanges, n')))
            (changes, n) = Inr st"
      "changePos \<le> i" "i < length oldChildren"
      "shouldSkipComparison (at oldChildren i) (at newChildren (i + changeCount)) = Inr b" "\<not> b"
    then show "CE_total (at oldChildren i) (at newChildren (i + changeCount))
        (indexPath path (i + changeCount)) y"
      using 7(2)[of st i "[]" y "([], y)" b] by simp
  next
    fix i y b
    assume "changeType = Deletion" "i < changePos"
      "shouldSkipComparison (at oldChildren i) (at newChildren i) = Inr b" "\<not> b"
    then show "CE_total (at oldChildren i) (at newChildren i) (indexPath path i) y"
      using 7(3)[of i "[]" y "([], y)" b] by simp
  next
    fix i y b st
    assume "changeType = Deletion"
      "forEach [0..<changePos]
            (\<lambda>i (changes, n).
                case shouldSkipComparison (at oldChildren i) (at newChildren i) of
                  Inl e \<Rightarrow> Inl e
                | Inr skip \<Rightarrow>
                    if skip then Inr (changes, n)
                    else (case compareElements (at oldChildren i) (at newChildren i) (indexPath path i) n of
                            Inl e \<Rightarrow> Inl e
                          | Inr (childChanges, n') \<Rightarrow> Inr (changes @ childChanges, n')))
            (changes, n) = Inr st"
      "changePos \<le> i" "i < length newChildren"
      "shouldSkipComparison (at oldChildren (i + changeCount)) (at newChildren i) = Inr b" "\<not> b"
    then show "CE_total (at oldChildren (i + changeCount)) (at newChildren i) (indexPath path i) y"
      using 7(4)[of st i "[]" y "([], y)" b] by simp
  qed
qed




text \<open>
  C3, as the code has it. For two elements of the same tag only the old one decides.
  When the old element is heavy the comparison stops and emits no operation, whatever
  the attributes and children of the two are. When the old element is not heavy, also
  when the new one is, the comparison is carried out in full: it returns the attribute
  update, if the attributes differ, followed by all that the comparison of the children
  returns, and the comparison of the children always returns.
\<close>

theorem compareElements_heavy_old_only:
  assumes "tagName old = Some tag" and "tagName new = Some tag"
  shows "(isHeavyElement (Some old) \<longrightarrow>
            compareElements (Some old) (Some new) path n = Inr ([], n)) \<and>
         (\<not> isHeavyElement (Some old) \<longrightarrow>
            (\<exists>childChanges m.
               compareChildren old new
                 (path @ (if path \<noteq> [] then '' > '' else []) @ toLowerCase tag) n =
                 Inr (childChanges, m) \<and>
               compareElements (Some old) (Some new) path n =
                 Inr ((if compareAttributes old new \<noteq> []
                       then [UpdateAttributes
                               (path @ (if path \<noteq> [] then '' > '' else []) @ toLowerCase tag)
                               old (compareAttributes old new)]
                       else []) @ childChanges, m)))"
proof (intro conjI impI)
  assume "isHeavyElement (Some old)"
  moreover from assms have "tagName old = tagName new" by simp
  ultimately show "compareElements (Some old) (Some new) path n = Inr ([], n)"
    by (rule heavy_stops)
next
  assume nh: "\<not> isHeavyElement (Some old)"
  let ?ep = "path @ (if path \<noteq> [] then '' > '' else []) @ toLowerCase tag"
  from assms(1) obtain i as cs where o: "old = Element i tag as cs"
    by (cases old) simp_all
  from assms(2) obtain j bs ds where nw: "new = Element j tag bs ds"
    by (cases new) simp_all
  from total_all(2)[of old new ?ep n] obtain childChanges m where
    cc: "compareChildren old new ?ep n = Inr (childChanges, m)"
    by (auto simp: CC_total_def)
  have "compareElements (Some old) (Some new) path n =
          Inr ((if compareAttributes old new \<noteq> []
                then [UpdateAttributes ?ep old (compareAttributes old new)]
                else []) @ childChanges, m)"
    using nh cc unfolding o nw
    by (simp add: ELEMENT_NODE_def TEXT_NODE_def Let_def
        del: isHeavyElement.simps compareChildren.simps)
  with cc show "\<exists>childChanges m.
               compareChildren old new ?ep n = Inr (childChanges, m) \<and>
               compareElements (Some old) (Some new) path n =
                 Inr ((if compareAttributes old new \<noteq> []
                       then [UpdateAttributes ?ep old (compareAttributes old new)]
                       else []) @ childChanges, m)"
    by blast
qed

theorem compareElements_heavy_old_only_witness:
  "compareElements (Some (Element 1 ''VIDEO'' [(''src'', ''a.mp4'')] [Text 2 ''x'']))
     (Some (Element 3 ''VIDEO'' [(''src'', ''b.mp4''), (''loop'', [])] [])) [] 4 = Inr ([], 4) \<and>
   \<not> isHeavyElement (Some (Element 1 ''DIV'' [(''class'', ''box'')] [Text 2 ''same''])) \<and>
   isHeavyElement
     (Some (Element 3 ''DIV'' [(''class'', ''box''), (''data-immutable'', ''true'')] [Text 4 ''same''])) \<and>
   compareElements (Some (Element 1 ''DIV'' [(''class'', ''box'')] [Text 2 ''same'']))
     (Some (Element 3 ''DIV'' [(''class'', ''box''), (''data-immutable'', ''true'')] [Text 4 ''same'']))
     [] 5 =
     Inr ([UpdateAttributes ''div'' (Element 1 ''DIV'' [(''class'', ''box'')] [Text 2 ''same''])
             [(''data-immutable'', None, Some ''true'')]], 5)"
proof -
  let ?v = "Element 1 ''VIDEO'' [(''src'', ''a.mp4'')] [Text 2 ''x'']"
  let ?w = "Element 3 ''VIDEO'' [(''src'', ''b.mp4''), (''loop'', [])] []"
  let ?old = "Element 1 ''DIV'' [(''class'', ''box'')] [Text 2 ''same'']"
  let ?new = "Element 3 ''DIV'' [(''class'', ''box''), (''data-immutable'', ''true'')] [Text 4 ''same'']"
  have hv: "isHeavyElement (Some ?v)" by code_simp
  have nh: "\<not> isHeavyElement (Some ?old)" by code_simp
  have h: "isHeavyElement (Some ?new)" by code_simp
  have at: "compareAttributes ?old ?new = [(''data-immutable'', None, Some ''true'')]"
    by code_simp
  have cc: "compareChildren ?old ?new ([] @ (if [] \<noteq> [] then '' > '' else []) @ toLowerCase ''DIV'') 5 =
      Inr ([], 5)"
    by code_simp
  have lc: "toLowerCase ''DIV'' = ''div''" by code_simp
  from compareElements_heavy_old_only[of ?v "''VIDEO''" ?w "[]" 4] hv
  have a: "compareElements (Some ?v) (Some ?w) [] 4 = Inr ([], 4)" by simp
  from compareElements_heavy_old_only[of ?old "''DIV''" ?new "[]" 5] nh
  obtain childChanges m where
    c1: "compareChildren ?old ?new ([] @ (if [] \<noteq> [] then '' > '' else []) @ toLowerCase ''DIV'') 5 =
         Inr (childChanges, m)"
    and c2: "compareElements (Some ?old) (Some ?new) [] 5 =
         Inr ((if compareAttributes ?old ?new \<noteq> []
               then [UpdateAttributes ([] @ (if [] \<noteq> [] then '' > '' else []) @ toLowerCase ''DIV'')
                       ?old (compareAttributes ?old ?new)]
               else []) @ childChanges, m)"
    by auto
  from c1 cc have "childChanges = []" "m = 5"
    by simp_all
  with c2 at lc have b: "compareElements (Some ?old) (Some ?new) [] 5 =
     Inr ([UpdateAttributes ''div'' ?old [(''data-immutable'', None, Some ''true'')]], 5)"
    by simp
  from a nh h b show ?thesis by blast
qed

section \<open>Properties of the Patcher\<close>

lemma nid_setChildren [simp]: "nid (setChildren p cs) = nid p"
  by (cases p) (simp_all add: setChildren_def)

lemma nid_setAttributes [simp]: "nid (setAttributes p as) = nid p"
  by (cases p) (simp_all add: setAttributes_def)

lemma nid_forceReprocess [simp]: "nid (fst (forceReprocess cb img)) = nid img"
  by (simp add: forceReprocess_def Let_def split: option.splits sum.splits)

lemma nid_processImg [simp]: "nid (fst (processImg cb img)) = nid img"
  by (simp add: processImg_def Let_def)

lemma nid_processNewNodeMedia [simp]: "nid (fst (processNewNodeMedia cb x)) = nid x"
  by (simp add: processNewNodeMedia_def split: prod.splits)

lemma nid_cloneNode [simp]: "nid (fst (cloneNode x n)) = n"
  by (cases x) (simp_all split: prod.splits)

lemma indexOfNode_Some:
  assumes "indexOfNode cs x = Some j"
  shows "j < length cs \<and> cs \<noteq> []"
proof -
  from assms obtain c where "find (\<lambda>(i, c). nid c = nid x) (zip [0..<length cs] cs) = Some (j, c)"
    by (auto simp: indexOfNode_def)
  then have "(j, c) \<in> set (zip [0..<length cs] cs)"
    by (auto simp: find_Some_iff in_set_conv_nth)
  then have "j \<in> set [0..<length cs]" by (rule set_zip_leftD)
  then show ?thesis by auto
qed

lemma childNodes_nonempty_element: "childNodes p \<noteq> [] \<Longrightarrow> nodeType p = ELEMENT_NODE"
  by (cases p) (simp_all add: ELEMENT_NODE_def)

lemma childNodes_setChildren: "nodeType p = ELEMENT_NODE \<Longrightarrow> childNodes (setChildren p cs) = cs"
  by (cases p) (simp_all add: setChildren_def ELEMENT_NODE_def)

lemma setChildren_setChildren [simp]: "setChildren (setChildren p cs) ds = setChildren p ds"
  by (cases p) (simp_all add: setChildren_def)

lemma put_fresh:
  assumes "j < length cs" and "\<forall>c\<in>set cs. nid c \<noteq> nid y" and "nid x = nid y"
  shows "map (\<lambda>c. if nid c = nid y then y else c) (cs[j := x]) = cs[j := y]"
  using assms by (auto simp: list_eq_iff_nth_eq nth_list_update)


lemma replace_then_put:
  assumes ix: "indexOfNode (childNodes realParent) realNode0 = Some j"
    and fresh: "\<forall>c\<in>set (childNodes realParent). nid c < n"
    and cl: "cloneNode template n = (clonedNode, n')"
    and pr: "processNewNodeMedia cb clonedNode = (processed, err)"
  shows "replaceChild realParent clonedNode realNode0 =
           Inr (setChildren realParent ((childNodes realParent)[j := clonedNode])) \<and>
         putChild (setChildren realParent ((childNodes realParent)[j := clonedNode])) processed =
           setChildren realParent ((childNodes realParent)[j := processed])"
proof -
  from indexOfNode_Some[OF ix] have j: "j < length (childNodes realParent)"
    and ne: "childNodes realParent \<noteq> []" by simp_all
  from ne have el: "nodeType realParent = ELEMENT_NODE" by (rule childNodes_nonempty_element)
  from cl have idc: "nid clonedNode = n" using nid_cloneNode[of template n] by simp
  from pr have idp: "nid processed = nid clonedNode"
    using nid_processNewNodeMedia[of cb clonedNode] by simp
  from fresh idc idp have fr: "\<forall>c\<in>set (childNodes realParent). nid c \<noteq> nid processed" by auto
  have r: "replaceChild realParent clonedNode realNode0 =
           Inr (setChildren realParent ((childNodes realParent)[j := clonedNode]))"
    using el ix by (simp add: replaceChild_def)
  have "putChild (setChildren realParent ((childNodes realParent)[j := clonedNode])) processed =
        setChildren realParent
          (map (\<lambda>c. if nid c = nid processed then processed else c)
             ((childNodes realParent)[j := clonedNode]))"
    using el by (simp add: putChild_def childNodes_setChildren)
  also have "\<dots> = setChildren realParent ((childNodes realParent)[j := processed])"
    using put_fresh[OF j fr, of clonedNode] idp by simp
  finally show ?thesis using r by simp
qed

text \<open>
  C9. \<open>handleInsert\<close> leaves the parent, the allocation counter and the log as they
  are, and throws nothing, when the child the parent has at \<open>newIndex\<close> is a text node
  with the content of a new child of type \<open>text\<close>, or an element whose tag name in
  lower case is the tag name of a new child of type \<open>element\<close>. Nothing else of the
  existing node or of the new child is looked at: not the attributes, not the children,
  not the template node.
\<close>

theorem handleInsert_skips_same_text_or_tag:
  assumes "at (childNodes realParent) newIndex = Some existingNode"
    and "(vtype newChild = ''text'' \<and> nodeType existingNode = TEXT_NODE \<and>
          vcontent newChild = Some (textContent existingNode)) \<or>
         (vtype newChild = ''element'' \<and> nodeType existingNode = ELEMENT_NODE \<and>
          vtagName newChild = map_option toLowerCase (tagName existingNode))"
  shows "handleInsert cb newIndex newChild newRealChild realParent st = (realParent, st, None) \<and>
         executeOperation patch cb (InsertOp newIndex newChild newRealChild) realParent st =
           (realParent, st, None)"
proof -
  have "handleInsert cb newIndex newChild newRealChild realParent st = (realParent, st, None)"
    using assms by (auto simp: handleInsert_def Let_def TEXT_NODE_def ELEMENT_NODE_def)
  then show ?thesis by (simp add: executeOperation_def)
qed

theorem handleInsert_skips_same_text_or_tag_witness:
  "at (childNodes (Element 1 ''DIV'' [] [Element 2 ''P'' [(''class'', ''old'')] [Text 3 ''kept'']])) 0 =
     Some (Element 2 ''P'' [(''class'', ''old'')] [Text 3 ''kept'']) \<and>
   handleInsert None 0
     (VNode ''element'' (Some 1) (Some ''p'') (Some [(''id'', ''fresh'')]) (Some []) None False None)
     (Some (Element 7 ''P'' [(''id'', ''fresh'')] []))
     (Element 1 ''DIV'' [] [Element 2 ''P'' [(''class'', ''old'')] [Text 3 ''kept'']])
     \<lparr>nextId = 10, errorLog = []\<rparr> =
   (Element 1 ''DIV'' [] [Element 2 ''P'' [(''class'', ''old'')] [Text 3 ''kept'']],
    \<lparr>nextId = 10, errorLog = []\<rparr>, None)"
proof -
  have a: "at (childNodes (Element 1 ''DIV'' [] [Element 2 ''P'' [(''class'', ''old'')] [Text 3 ''kept'']])) 0 =
     Some (Element 2 ''P'' [(''class'', ''old'')] [Text 3 ''kept''])"
    by code_simp
  have b: "(vtype (VNode ''element'' (Some 1) (Some ''p'') (Some [(''id'', ''fresh'')]) (Some []) None False None) = ''text'' \<and>
        nodeType (Element 2 ''P'' [(''class'', ''old'')] [Text 3 ''kept'']) = TEXT_NODE \<and>
        vcontent (VNode ''element'' (Some 1) (Some ''p'') (Some [(''id'', ''fresh'')]) (Some []) None False None) =
          Some (textContent (Element 2 ''P'' [(''class'', ''old'')] [Text 3 ''kept'']))) \<or>
       (vtype (VNode ''element'' (Some 1) (Some ''p'') (Some [(''id'', ''fresh'')]) (Some []) None False None) = ''element'' \<and>
        nodeType (Element 2 ''P'' [(''class'', ''old'')] [Text 3 ''kept'']) = ELEMENT_NODE \<and>
        vtagName (VNode ''element'' (Some 1) (Some ''p'') (Some [(''id'', ''fresh'')]) (Some []) None False None) =
          map_option toLowerCase (tagName (Element 2 ''P'' [(''class'', ''old'')] [Text 3 ''kept''])))"
    by code_simp
  from handleInsert_skips_same_text_or_tag[OF a b] a show ?thesis by blast
qed

text \<open>
  C6. An immutable pair whose \<open>data-raw\<close> or \<open>data-language\<close> differ and for which
  there is no template node (\<open>newRealChildren\<close> has nothing at the index): the live
  code block stays as it is, with the old content.
\<close>

theorem handleUpdate_immutable_no_template_counterexample:
  "orEmpty (map_of [(''data-raw'', ''x = 1''), (''data-language'', ''js'')] ''data-raw'') \<noteq>
     orEmpty (map_of [(''data-raw'', ''x = 2''), (''data-language'', ''js'')] ''data-raw'') \<and>
   handleUpdate (\<lambda>realParent oldVNode newVNode newRealElement st. (realParent, st, None)) None 0
     \<lparr>vNode = VNode ''element'' (Some 1) (Some ''pre'')
                (Some [(''data-raw'', ''x = 1''), (''data-language'', ''js'')]) (Some []) None True None,
      realNode = Some (Element 2 ''PRE'' [(''data-raw'', ''x = 1'')] [Text 3 ''x = 1'']),
      index = 0, originalKey = ''element-0-pre''\<rparr>
     (VNode ''element'' (Some 1) (Some ''pre'')
        (Some [(''data-raw'', ''x = 2''), (''data-language'', ''js'')]) (Some []) None True None)
     None
     (Element 1 ''DIV'' [] [Element 2 ''PRE'' [(''data-raw'', ''x = 1'')] [Text 3 ''x = 1'']])
     \<lparr>nextId = 4, errorLog = []\<rparr> =
   (Element 1 ''DIV'' [] [Element 2 ''PRE'' [(''data-raw'', ''x = 1'')] [Text 3 ''x = 1'']],
    \<lparr>nextId = 4, errorLog = []\<rparr>, None)"
  by code_simp

text \<open>
  C6, as the code has it. For a matched pair of which either node is immutable, both
  with an attribute map, and a live node: the two attributes are compared with a missing
  one read as the empty string. When both are equal, and also when they differ and there
  is no template node, \<open>handleUpdate\<close> returns the parent and the state unchanged. When
  they differ and there is a template node, the result is the parent with the child at
  the position of the live node replaced by the fresh copy of the template, after the
  media pass over that copy; every other child is the same, and the recursive patch is
  not called, whatever it is.
\<close>

theorem handleUpdate_immutable_rule:
  assumes "vimmutable newChild \<or> vimmutable (vNode oldEntry)"
    and "vattributes (vNode oldEntry) = Some oldAttrs"
    and "vattributes newChild = Some newAttrs"
    and "realNode oldEntry = Some realNode0"
  shows "(orEmpty (map_of oldAttrs ''data-raw'') = orEmpty (map_of newAttrs ''data-raw'') \<and>
          orEmpty (map_of oldAttrs ''data-language'') = orEmpty (map_of newAttrs ''data-language'') \<longrightarrow>
            handleUpdate patch cb newIndex oldEntry newChild newRealChild realParent st =
              (realParent, st, None)) \<and>
         (\<not> (orEmpty (map_of oldAttrs ''data-raw'') = orEmpty (map_of newAttrs ''data-raw'') \<and>
             orEmpty (map_of oldAttrs ''data-language'') = orEmpty (map_of newAttrs ''data-language'')) \<longrightarrow>
          newRealChild = None \<longrightarrow>
            handleUpdate patch cb newIndex oldEntry newChild newRealChild realParent st =
              (realParent, st, None)) \<and>
         (\<not> (orEmpty (map_of oldAttrs ''data-raw'') = orEmpty (map_of newAttrs ''data-raw'') \<and>
             orEmpty (map_of oldAttrs ''data-language'') = orEmpty (map_of newAttrs ''data-language'')) \<longrightarrow>
          newRealChild = Some template \<longrightarrow>
          indexOfNode (childNodes realParent) realNode0 = Some j \<longrightarrow>
          (\<forall>c\<in>set (childNodes realParent). nid c < nextId st) \<longrightarrow>
          cloneNode template (nextId st) = (clonedNode, n') \<longrightarrow>
          processNewNodeMedia cb clonedNode = (processed, err) \<longrightarrow>
            handleUpdate patch cb newIndex oldEntry newChild newRealChild realParent st =
              (setChildren realParent ((childNodes realParent)[j := processed]),
               st\<lparr>nextId := n'\<rparr>, err))"
proof (intro conjI impI)
  assume "orEmpty (map_of oldAttrs ''data-raw'') = orEmpty (map_of newAttrs ''data-raw'') \<and>
          orEmpty (map_of oldAttrs ''data-language'') = orEmpty (map_of newAttrs ''data-language'')"
  with assms show "handleUpdate patch cb newIndex oldEntry newChild newRealChild realParent st =
              (realParent, st, None)"
    by (simp add: handleUpdate_def)
next
  assume "\<not> (orEmpty (map_of oldAttrs ''data-raw'') = orEmpty (map_of newAttrs ''data-raw'') \<and>
             orEmpty (map_of oldAttrs ''data-language'') = orEmpty (map_of newAttrs ''data-language''))"
    and "newRealChild = None"
  with assms show "handleUpdate patch cb newIndex oldEntry newChild newRealChild realParent st =
              (realParent, st, None)"
    by (simp add: handleUpdate_def)
next
  assume d: "\<not> (orEmpty (map_of oldAttrs ''data-raw'') = orEmpty (map_of newAttrs ''data-raw'') \<and>
             orEmpty (map_of oldAttrs ''data-language'') = orEmpty (map_of newAttrs ''data-language''))"
    and t: "newRealChild = Some template"
    and ix: "indexOfNode (childNodes realParent) realNode0 = Some j"
    and fresh: "\<forall>c\<in>set (childNodes realParent). nid c < nextId st"
    and cl: "cloneNode template (nextId st) = (clonedNode, n')"
    and pr: "processNewNodeMedia cb clonedNode = (processed, err)"
  from replace_then_put[OF ix fresh cl pr] assms d t cl pr
  show "handleUpdate patch cb newIndex oldEntry newChild newRealChild realParent st =
              (setChildren realParent ((childNodes realParent)[j := processed]),
               st\<lparr>nextId := n'\<rparr>, err)"
    by (auto simp: handleUpdate_def)
qed


theorem handleUpdate_immutable_rule_witness:
  "handleUpdate (\<lambda>realParent oldVNode newVNode newRealElement st. (realParent, st, None)) None 0
     \<lparr>vNode = VNode ''element'' (Some 1) (Some ''pre'')
                (Some [(''data-raw'', ''x = 1''), (''data-language'', ''js'')]) (Some []) None True None,
      realNode = Some (Element 2 ''PRE'' [(''data-raw'', ''x = 1'')] [Text 3 ''x = 1'']),
      index = 0, originalKey = ''element-0-pre''\<rparr>
     (VNode ''element'' (Some 1) (Some ''pre'')
        (Some [(''data-raw'', ''x = 2''), (''data-language'', ''js'')]) (Some []) None True None)
     (Some (Element 7 ''PRE'' [(''data-raw'', ''x = 2'')] [Text 8 ''x = 2'']))
     (Element 1 ''DIV'' [] [Element 2 ''PRE'' [(''data-raw'', ''x = 1'')] [Text 3 ''x = 1''], Text 4 ''tail''])
     \<lparr>nextId = 9, errorLog = []\<rparr> =
   (Element 1 ''DIV'' [] [Element 9 ''PRE'' [(''data-raw'', ''x = 2'')] [Text 10 ''x = 2''], Text 4 ''tail''],
    \<lparr>nextId = 11, errorLog = []\<rparr>, None)"
proof -
  let ?patch = "\<lambda>(realParent :: node option) (oldVNode :: vnode option) (newVNode :: vnode option)
                  (newRealElement :: node option) (st :: pstate). (realParent, st, None :: js_error option)"
  let ?oa = "[(''data-raw'', ''x = 1''), (''data-language'', ''js'')]"
  let ?na = "[(''data-raw'', ''x = 2''), (''data-language'', ''js'')]"
  let ?real = "Element 2 ''PRE'' [(''data-raw'', ''x = 1'')] [Text 3 ''x = 1'']"
  let ?entry = "\<lparr>vNode = VNode ''element'' (Some 1) (Some ''pre'') (Some ?oa) (Some []) None True None,
      realNode = Some ?real, index = 0, originalKey = ''element-0-pre''\<rparr>"
  let ?new = "VNode ''element'' (Some 1) (Some ''pre'') (Some ?na) (Some []) None True None"
  let ?template = "Element 7 ''PRE'' [(''data-raw'', ''x = 2'')] [Text 8 ''x = 2'']"
  let ?clone = "Element 9 ''PRE'' [(''data-raw'', ''x = 2'')] [Text 10 ''x = 2'']"
  let ?parent = "Element 1 ''DIV'' [] [?real, Text 4 ''tail'']"
  let ?st = "\<lparr>nextId = 9, errorLog = []\<rparr>"
  have a: "vimmutable ?new \<or> vimmutable (vNode ?entry)" by simp
  have b: "vattributes (vNode ?entry) = Some ?oa" by simp
  have c: "vattributes ?new = Some ?na" by simp
  have r: "realNode ?entry = Some ?real" by simp
  have d: "\<not> (orEmpty (map_of ?oa ''data-raw'') = orEmpty (map_of ?na ''data-raw'') \<and>
             orEmpty (map_of ?oa ''data-language'') = orEmpty (map_of ?na ''data-language''))"
    by (simp add: orEmpty_def)
  have ix: "indexOfNode (childNodes ?parent) ?real = Some 0" by code_simp
  have fr: "\<forall>c\<in>set (childNodes ?parent). nid c < nextId ?st" by simp
  have cl: "cloneNode ?template (nextId ?st) = (?clone, 11)" by simp
  have pr: "processNewNodeMedia None ?clone = (?clone, None)" by code_simp
  have "handleUpdate ?patch None 0 ?entry ?new (Some ?template) ?parent ?st =
          (setChildren ?parent ((childNodes ?parent)[0 := ?clone]), ?st\<lparr>nextId := 11\<rparr>, None)"
    using handleUpdate_immutable_rule[OF a b c r, of ?patch None 0 "Some ?template" ?parent ?st
        ?template 0 ?clone 11 ?clone None] d ix fr cl pr
    by blast
  then show ?thesis by (simp add: setChildren_def)
qed

lemma executeAll_append:
  "executeAll exec (xs @ ys) p st =
     (case executeAll exec xs p st of (p1, st1) \<Rightarrow> executeAll exec ys p1 st1)"
  by (induction xs arbitrary: p st) (auto split: prod.splits option.splits)

lemma applyAll_append:
  "applyAll cb (xs @ ys) root st =
     (case applyAll cb xs root st of (r1, s1) \<Rightarrow> applyAll cb ys r1 s1)"
  by (induction xs arbitrary: root st) (auto split: prod.splits option.splits)

text \<open>
  C8. Take any operation of the batch that \<open>keyBasedPatch\<close> executes (its sorted
  operations), or any change of the batch of \<open>applyChanges\<close> (the sorted changes), with
  the operations before it and after it. Whatever the operations before it did or threw,
  the operation is executed on the parent they left. When it throws, the exception does
  not leave the loop: one line is appended to the log, and the operations after it are
  executed on the parent as the failed operation left it; the result of the batch is
  what those remaining operations return. \<open>keyBasedPatch\<close> itself throws nothing once the
  matching pass is over.
\<close>

theorem batch_continues_after_exception:
  "(firstPass (buildChildMap oldChildren (childNodes realParent)) newChildren newRealChildren 0 [] [] =
      Inr (matched, operations) \<longrightarrow>
    sortOperations
      (operations @ secondPass (buildChildMap oldChildren (childNodes realParent)) matched) =
      xs @ op # ys \<longrightarrow>
    executeAll (executeOperation patch cb) xs realParent st = (p1, st1) \<longrightarrow>
    executeOperation patch cb op p1 st1 = (p2, st2, thrown) \<longrightarrow>
      keyBasedPatch patch cb realParent oldChildren newChildren newRealChildren st =
        (case executeAll (executeOperation patch cb) ys p2
                (case thrown of
                   None \<Rightarrow> st2
                 | Some opError \<Rightarrow>
                     st2\<lparr>errorLog := errorLog st2 @
                       [(''Error executing '' @ opType op @ '' operation:'', opError)]\<rparr>) of
           (p3, st3) \<Rightarrow> (p3, st3, None))) \<and>
   (sortedChanges changes = cs @ c # ds \<longrightarrow>
    applyAll cb cs root s = (r1, s1) \<longrightarrow>
    applyChange cb c r1 s1 = (r2, s2, thrown') \<longrightarrow>
      applyChanges cb changes root s =
        applyAll cb ds r2
          (case thrown' of
             None \<Rightarrow> s2
           | Some error \<Rightarrow>
               s2\<lparr>errorLog := errorLog s2 @ [(''Error applying '' @ ctype c @ '':'', error)]\<rparr>))"
proof (intro conjI impI)
  assume "firstPass (buildChildMap oldChildren (childNodes realParent)) newChildren newRealChildren 0 [] [] =
      Inr (matched, operations)"
    and "sortOperations
      (operations @ secondPass (buildChildMap oldChildren (childNodes realParent)) matched) =
      xs @ op # ys"
    and "executeAll (executeOperation patch cb) xs realParent st = (p1, st1)"
    and "executeOperation patch cb op p1 st1 = (p2, st2, thrown)"
  then show "keyBasedPatch patch cb realParent oldChildren newChildren newRealChildren st =
        (case executeAll (executeOperation patch cb) ys p2
                (case thrown of
                   None \<Rightarrow> st2
                 | Some opError \<Rightarrow>
                     st2\<lparr>errorLog := errorLog st2 @
                       [(''Error executing '' @ opType op @ '' operation:'', opError)]\<rparr>) of
           (p3, st3) \<Rightarrow> (p3, st3, None))"
    by (cases thrown) (simp_all add: keyBasedPatch_def Let_def executeAll_append)
next
  assume "sortedChanges changes = cs @ c # ds"
    and "applyAll cb cs root s = (r1, s1)"
    and "applyChange cb c r1 s1 = (r2, s2, thrown')"
  then show "applyChanges cb changes root s =
        applyAll cb ds r2
          (case thrown' of
             None \<Rightarrow> s2
           | Some error \<Rightarrow>
               s2\<lparr>errorLog := errorLog s2 @ [(''Error applying '' @ ctype c @ '':'', error)]\<rparr>)"
    by (cases thrown') (simp_all add: applyChanges_def applyAll_append)
qed


theorem batch_continues_after_exception_witness:
  "keyBasedPatch (patchNode None) None (Element 1 ''DIV'' [] []) []
     [Some (VNode ''element'' (Some 1) (Some ''a b'') (Some []) (Some []) None False None),
      Some (VNode ''text'' (Some 3) None None None None False (Some ''hello''))] []
     \<lparr>nextId = 10, errorLog = []\<rparr> =
     (Element 1 ''DIV'' [] [Text 11 ''hello''],
      \<lparr>nextId = 12,
       errorLog = [(''Error executing insert operation:'', DOMException ''InvalidCharacterError'')]\<rparr>,
      None) \<and>
   applyChanges None
     [InsertChild ''div'' (Element 1 ''DIV'' [] [Element 2 ''P'' [] []]) (Text 5 ''new'') 1,
      UpdateAttributes ''div > p'' (Element 2 ''P'' [] []) [(''bad name'', None, Some ''v'')]]
     (Element 1 ''DIV'' [] [Element 2 ''P'' [] []]) \<lparr>nextId = 10, errorLog = []\<rparr> =
     (Element 1 ''DIV'' [] [Element 2 ''P'' [] [], Text 5 ''new''],
      \<lparr>nextId = 10,
       errorLog = [(''Error applying updateAttributes:'', DOMException ''InvalidCharacterError'')]\<rparr>)"
proof -
  let ?bad = "VNode ''element'' (Some 1) (Some ''a b'') (Some []) (Some []) None False None"
  let ?good = "VNode ''text'' (Some 3) None None None None False (Some ''hello'')"
  let ?parent = "Element 1 ''DIV'' [] []"
  let ?st = "\<lparr>nextId = 10, errorLog = []\<rparr>"
  let ?ins = "InsertChild ''div'' (Element 1 ''DIV'' [] [Element 2 ''P'' [] []]) (Text 5 ''new'') 1"
  let ?upd = "UpdateAttributes ''div > p'' (Element 2 ''P'' [] []) [(''bad name'', None, Some ''v'')]"
  let ?root = "Element 1 ''DIV'' [] [Element 2 ''P'' [] []]"
  have fp: "firstPass (buildChildMap [] (childNodes ?parent)) [Some ?bad, Some ?good] [] 0 [] [] =
      Inr ([], [InsertOp 0 ?bad None, InsertOp 1 ?good None])"
    by code_simp
  have so: "sortOperations ([InsertOp 0 ?bad None, InsertOp 1 ?good None] @
              secondPass (buildChildMap [] (childNodes ?parent)) []) =
            [] @ InsertOp 0 ?bad None # [InsertOp 1 ?good None]"
    by code_simp
  have ex0: "executeAll (executeOperation (patchNode None) None) [] ?parent ?st = (?parent, ?st)"
    by simp
  have ex1: "executeOperation (patchNode None) None (InsertOp 0 ?bad None) ?parent ?st =
      (?parent, \<lparr>nextId = 11, errorLog = []\<rparr>, Some (DOMException ''InvalidCharacterError''))"
    by code_simp
  have rest: "executeAll (executeOperation (patchNode None) None) [InsertOp 1 ?good None] ?parent
      (\<lparr>nextId = 11, errorLog = []\<rparr>\<lparr>errorLog := errorLog \<lparr>nextId = 11, errorLog = []\<rparr> @
         [(''Error executing '' @ opType (InsertOp 0 ?bad None) @ '' operation:'',
           DOMException ''InvalidCharacterError'')]\<rparr>) =
      (Element 1 ''DIV'' [] [Text 11 ''hello''],
       \<lparr>nextId = 12,
        errorLog = [(''Error executing insert operation:'', DOMException ''InvalidCharacterError'')]\<rparr>)"
    by code_simp
  have sc: "sortedChanges [?ins, ?upd] = [] @ ?upd # [?ins]" by code_simp
  have ap0: "applyAll None [] ?root ?st = (?root, ?st)" by simp
  have ap1: "applyChange None ?upd ?root ?st = (?root, ?st, Some (DOMException ''InvalidCharacterError''))"
    by code_simp
  have rest': "applyAll None [?ins] ?root
      (?st\<lparr>errorLog := errorLog ?st @
         [(''Error applying '' @ ctype ?upd @ '':'', DOMException ''InvalidCharacterError'')]\<rparr>) =
      (Element 1 ''DIV'' [] [Element 2 ''P'' [] [], Text 5 ''new''],
       \<lparr>nextId = 10,
        errorLog = [(''Error applying updateAttributes:'', DOMException ''InvalidCharacterError'')]\<rparr>)"
    by code_simp
  note th = batch_continues_after_exception[where oldChildren = "[]" and realParent = ?parent
      and newChildren = "[Some ?bad, Some ?good]" and newRealChildren = "[]" and matched = "[]"
      and operations = "[InsertOp 0 ?bad None, InsertOp 1 ?good None]" and xs = "[]"
      and op = "InsertOp 0 ?bad None" and ys = "[InsertOp 1 ?good None]"
      and patch = "patchNode None" and cb = None and st = ?st and ?p1.0 = ?parent and ?st1.0 = ?st
      and ?p2.0 = ?parent and ?st2.0 = "\<lparr>nextId = 11, errorLog = []\<rparr>"
      and thrown = "Some (DOMException ''InvalidCharacterError'')"
      and changes = "[?ins, ?upd]" and cs = "[]" and c = ?upd and ds = "[?ins]" and root = ?root
      and s = ?st and ?r1.0 = ?root and ?s1.0 = ?st and ?r2.0 = ?root and ?s2.0 = ?st
      and thrown' = "Some (DOMException ''InvalidCharacterError'')"]
  from th fp so ex0 ex1 have
    "keyBasedPatch (patchNode None) None ?parent [] [Some ?bad, Some ?good] [] ?st =
       (case executeAll (executeOperation (patchNode None) None) [InsertOp 1 ?good None] ?parent
          (\<lparr>nextId = 11, errorLog = []\<rparr>\<lparr>errorLog := errorLog \<lparr>nextId = 11, errorLog = []\<rparr> @
         [(''Error executing '' @ opType (InsertOp 0 ?bad None) @ '' operation:'',
           DOMException ''InvalidCharacterError'')]\<rparr>) of (p3, st3) \<Rightarrow> (p3, st3, None))"
    by simp
  with rest have k: "keyBasedPatch (patchNode None) None ?parent [] [Some ?bad, Some ?good] [] ?st =
     (Element 1 ''DIV'' [] [Text 11 ''hello''],
      \<lparr>nextId = 12,
       errorLog = [(''Error executing insert operation:'', DOMException ''InvalidCharacterError'')]\<rparr>,
      None)"
    by simp
  from th sc ap0 ap1 have
    "applyChanges None [?ins, ?upd] ?root ?st =
       applyAll None [?ins] ?root
      (?st\<lparr>errorLog := errorLog ?st @
         [(''Error applying '' @ ctype ?upd @ '':'', DOMException ''InvalidCharacterError'')]\<rparr>)"
    by simp
  with rest' have "applyChanges None [?ins, ?upd] ?root ?st =
      (Element 1 ''DIV'' [] [Element 2 ''P'' [] [], Text 5 ''new''],
       \<lparr>nextId = 10,
        errorLog = [(''Error applying updateAttributes:'', DOMException ''InvalidCharacterError'')]\<rparr>)"
    by simp
  with k show ?thesis by simp
qed


text \<open>
  The positions in the old list of the entries that the update operations refer to.
\<close>

fun matchedOldIndexes :: "operation list \<Rightarrow> nat list" where
  "matchedOldIndexes [] = []"
| "matchedOldIndexes (UpdateOp newIndex oldEntry newChild newRealChild # ops) =
     index oldEntry # matchedOldIndexes ops"
| "matchedOldIndexes (InsertOp newIndex newChild newRealChild # ops) = matchedOldIndexes ops"
| "matchedOldIndexes (RemoveOp oldEntry # ops) = matchedOldIndexes ops"

lemma matchedOldIndexes_append:
  "matchedOldIndexes (xs @ ys) = matchedOldIndexes xs @ matchedOldIndexes ys"
  by (induction xs rule: matchedOldIndexes.induct) simp_all

lemma findEntry_Some:
  "findEntry p matched m = Inr (Some (k, e)) \<Longrightarrow> (k, e) \<in> set m \<and> k \<notin> set matched"
  by (induction p matched m rule: findEntry.induct) (auto split: if_splits sum.splits)

lemma matchOld_Some:
  assumes "matchOld m matched newChild newIndex = Inr (Some (k, e))"
  shows "(k, e) \<in> set m \<and> k \<notin> set matched"
  using assms
  by (auto simp: matchOld_def split: sum.splits option.splits dest: findEntry_Some)

text \<open>
  The invariant of the matching pass: the matched keys are distinct keys of the old map,
  and the update operations pushed so far carry, in order, the entries of those keys.
\<close>

definition matchInv :: "(string \<times> entry) list \<Rightarrow> string list \<Rightarrow> operation list \<Rightarrow> bool" where
  "matchInv m matched ops =
     (distinct matched \<and> set matched \<subseteq> fst ` set m \<and>
      matchedOldIndexes ops = map (\<lambda>k. index (the (map_of m k))) matched)"

lemma firstPass_matchInv:
  "firstPass m cs reals i matched ops = Inr (matched', ops') \<Longrightarrow> distinct (map fst m) \<Longrightarrow>
   matchInv m matched ops \<Longrightarrow> [] \<notin> fst ` set m \<Longrightarrow> matchInv m matched' ops'"
proof (induction m cs reals i matched ops rule: firstPass.induct)
  case (1 oldChildMap newRealChildren newIndex matched operations)
  then show ?case by simp
next
  case (2 oldChildMap rest newRealChildren newIndex matched operations)
  then show ?case by simp
next
  case (3 oldChildMap newChild rest newRealChildren newIndex matched operations)
  show ?case
  proof (cases "matchOld oldChildMap matched newChild newIndex")
    case (Inl err)
    with "3.prems" show ?thesis by simp
  next
    case (Inr found)
    show ?thesis
    proof (cases found)
      case None
      have "matchInv oldChildMap matched
              (operations @ [InsertOp newIndex newChild (at newRealChildren newIndex)])"
        using "3.prems"(3) by (simp add: matchInv_def matchedOldIndexes_append)
      with "3.IH"(1)[OF Inr None] "3.prems" Inr None show ?thesis by simp
    next
      case (Some ke)
      obtain k e where ke: "ke = (k, e)" by (cases ke)
      from matchOld_Some[of oldChildMap matched newChild newIndex k e] Inr Some ke
      have mem: "(k, e) \<in> set oldChildMap" and notin: "k \<notin> set matched" by simp_all
      from mem "3.prems"(2) have mo: "map_of oldChildMap k = Some e" by simp
      from mem "3.prems"(4) have ne: "k \<noteq> []" by force
      have "matchInv oldChildMap (matched @ [k])
              (operations @ [UpdateOp newIndex e newChild (at newRealChildren newIndex)])"
        using "3.prems"(3) mem notin mo
        by (auto simp: matchInv_def matchedOldIndexes_append intro: rev_image_eqI)
      with "3.IH"(2)[OF Inr Some ke[symmetric]] "3.prems" Inr Some ke ne show ?thesis by simp
    qed
  qed
qed


lemma childKey_nonempty: "childKey child i \<noteq> []"
  by (auto simp: childKey_def truthy_def orEmpty_def split: option.splits)

lemma entryOk_key_nonempty: "entryOk realChildren ke \<Longrightarrow> fst ke \<noteq> []"
  by (auto simp: entryOk_def dupKey_def childKey_nonempty)

lemma buildChildMap_keys_nonempty: "[] \<notin> fst ` set (buildChildMap children realChildren)"
proof
  assume "[] \<in> fst ` set (buildChildMap children realChildren)"
  then obtain ke where ke: "ke \<in> set (buildChildMap children realChildren)" and e: "fst ke = []"
    by force
  from buildChildMap_props[of children realChildren] ke have "entryOk realChildren ke"
    by (simp add: list_all_iff)
  from entryOk_key_nonempty[OF this] e show False by simp
qed

lemma buildChildMap_index_distinct:
  "distinct (map (\<lambda>ke. index (snd ke)) (buildChildMap children realChildren))"
proof -
  let ?m = "buildChildMap children realChildren"
  have "map (\<lambda>ke. index (snd ke)) ?m =
        map fst (map (\<lambda>ke. (index (snd ke), Some (vNode (snd ke)))) ?m)"
    by simp
  also have "\<dots> = map fst (filter (\<lambda>ic. snd ic \<noteq> None) (zip [0..<length children] children))"
    using buildChildMap_props[of children realChildren] by simp
  finally have eq: "map (\<lambda>ke. index (snd ke)) ?m =
      map fst (filter (\<lambda>ic. snd ic \<noteq> None) (zip [0..<length children] children))" .
  have "distinct (map fst (zip [0..<length children] children))" by simp
  then have "distinct (map fst (filter (\<lambda>ic. snd ic \<noteq> None) (zip [0..<length children] children)))"
    by (rule distinct_map_filter)
  with eq show ?thesis by simp
qed

lemma matchInv_distinct:
  assumes inv: "matchInv m matched ops" and dk: "distinct (map fst m)"
    and di: "distinct (map (\<lambda>ke. index (snd ke)) m)"
  shows "distinct (matchedOldIndexes ops)"
proof -
  have inj: "inj_on (\<lambda>k. index (the (map_of m k))) (fst ` set m)"
  proof (rule inj_onI)
    fix a b
    assume a: "a \<in> fst ` set m" and b: "b \<in> fst ` set m"
      and eq: "index (the (map_of m a)) = index (the (map_of m b))"
    from a obtain ea where ea: "(a, ea) \<in> set m" by force
    from b obtain eb where eb: "(b, eb) \<in> set m" by force
    from ea dk have ma: "map_of m a = Some ea" by simp
    from eb dk have mb: "map_of m b = Some eb" by simp
    from eq ma mb have "index ea = index eb" by simp
    then have ie: "(\<lambda>ke. index (snd ke)) (a, ea) = (\<lambda>ke. index (snd ke)) (b, eb)" by simp
    from di have "inj_on (\<lambda>ke. index (snd ke)) (set m)" by (simp add: distinct_map)
    from this ie ea eb have "(a, ea) = (b, eb)" by (rule inj_onD)
    then show "a = b" by simp
  qed
  from inv have d: "distinct matched" and sub: "set matched \<subseteq> fst ` set m"
    and eq: "matchedOldIndexes ops = map (\<lambda>k. index (the (map_of m k))) matched"
    by (simp_all add: matchInv_def)
  from inj sub have "inj_on (\<lambda>k. index (the (map_of m k))) (set matched)"
    by (rule inj_on_subset)
  with d eq show ?thesis by (simp add: distinct_map)
qed

text \<open>
  C7. The map that \<open>keyBasedPatch\<close> builds from a list of children (the old list with
  the live children, the new list with the template children) has pairwise distinct keys
  and exactly one entry for every child that is not null, in the order of the list, with
  the child and its position. The key of an entry is the key of its child (\<open>_nodeId\<close>,
  or \<open>type-index-tagName\<close>) or that key followed by \<open>-dup\<close> and a counter from 1. In
  the matching pass no entry of the old map is given to two new children: the keys
  recorded as matched are distinct, and so are the positions of the old entries that the
  update operations carry.
\<close>

theorem keyBasedPatch_child_map_keys_unique:
  "distinct (map fst (buildChildMap children realChildren)) \<and>
   map (\<lambda>ke. (index (snd ke), Some (vNode (snd ke)))) (buildChildMap children realChildren) =
     filter (\<lambda>ic. snd ic \<noteq> None) (zip [0..<length children] children) \<and>
   list_all (entryOk realChildren) (buildChildMap children realChildren) \<and>
   (firstPass (buildChildMap children realChildren) newChildren newRealChildren 0 [] [] =
      Inr (matched, operations) \<longrightarrow>
    distinct matched \<and> set matched \<subseteq> fst ` set (buildChildMap children realChildren) \<and>
    distinct (matchedOldIndexes operations))"
proof -
  let ?m = "buildChildMap children realChildren"
  note props = buildChildMap_props[of children realChildren]
  have "distinct matched \<and> set matched \<subseteq> fst ` set ?m \<and> distinct (matchedOldIndexes operations)"
    if fp: "firstPass ?m newChildren newRealChildren 0 [] [] = Inr (matched, operations)"
  proof -
    have dk: "distinct (map fst ?m)" using props by simp
    have "matchInv ?m [] []" by (simp add: matchInv_def)
    from firstPass_matchInv[OF fp dk this buildChildMap_keys_nonempty]
    have inv: "matchInv ?m matched operations" .
    from matchInv_distinct[OF inv dk buildChildMap_index_distinct] inv
    show ?thesis by (simp add: matchInv_def)
  qed
  with props show ?thesis by blast
qed


theorem keyBasedPatch_child_map_keys_unique_witness:
  "map fst (buildChildMap
     [Some (VNode ''element'' (Some 1) (Some ''p'') (Some []) (Some []) (Some ''text-1-'') False None),
      Some (VNode ''text'' (Some 3) None None None None False (Some ''hi'')),
      Some (VNode ''element'' (Some 1) (Some ''p'') (Some []) (Some []) (Some ''x'') False None),
      None,
      Some (VNode ''element'' (Some 1) (Some ''p'') (Some []) (Some []) (Some ''x'') False None)]
     [Element 11 ''P'' [] [], Text 12 ''hi'', Element 13 ''P'' [] [], Comment 14 ''gap'', Element 15 ''P'' [] []]) =
     [''text-1-'', ''text-1--dup1'', ''x'', ''x-dup1''] \<and>
   firstPass (buildChildMap
     [Some (VNode ''element'' (Some 1) (Some ''p'') (Some []) (Some []) (Some ''text-1-'') False None),
      Some (VNode ''text'' (Some 3) None None None None False (Some ''hi'')),
      Some (VNode ''element'' (Some 1) (Some ''p'') (Some []) (Some []) (Some ''x'') False None),
      None,
      Some (VNode ''element'' (Some 1) (Some ''p'') (Some []) (Some []) (Some ''x'') False None)]
     [Element 11 ''P'' [] [], Text 12 ''hi'', Element 13 ''P'' [] [], Comment 14 ''gap'', Element 15 ''P'' [] []])
     [Some (VNode ''element'' (Some 1) (Some ''p'') (Some []) (Some []) (Some ''x'') False None),
      Some (VNode ''element'' (Some 1) (Some ''p'') (Some []) (Some []) (Some ''x'') False None)] [] 0 [] [] =
     Inr ([''x'', ''x-dup1''],
       [UpdateOp 0
         \<lparr>vNode = VNode ''element'' (Some 1) (Some ''p'') (Some []) (Some []) (Some ''x'') False None,
          realNode = Some (Element 13 ''P'' [] []), index = 2, originalKey = ''x''\<rparr>
         (VNode ''element'' (Some 1) (Some ''p'') (Some []) (Some []) (Some ''x'') False None) None,
       UpdateOp 1
         \<lparr>vNode = VNode ''element'' (Some 1) (Some ''p'') (Some []) (Some []) (Some ''x'') False None,
          realNode = Some (Element 15 ''P'' [] []), index = 4, originalKey = ''x''\<rparr>
         (VNode ''element'' (Some 1) (Some ''p'') (Some []) (Some []) (Some ''x'') False None) None]) \<and>
   distinct (matchedOldIndexes
       [UpdateOp 0
         \<lparr>vNode = VNode ''element'' (Some 1) (Some ''p'') (Some []) (Some []) (Some ''x'') False None,
          realNode = Some (Element 13 ''P'' [] []), index = 2, originalKey = ''x''\<rparr>
         (VNode ''element'' (Some 1) (Some ''p'') (Some []) (Some []) (Some ''x'') False None) None,
       UpdateOp 1
         \<lparr>vNode = VNode ''element'' (Some 1) (Some ''p'') (Some []) (Some []) (Some ''x'') False None,
          realNode = Some (Element 15 ''P'' [] []), index = 4, originalKey = ''x''\<rparr>
         (VNode ''element'' (Some 1) (Some ''p'') (Some []) (Some []) (Some ''x'') False None) None])"
proof -
  let ?x = "VNode ''element'' (Some 1) (Some ''p'') (Some []) (Some []) (Some ''x'') False None"
  let ?children = "[Some (VNode ''element'' (Some 1) (Some ''p'') (Some []) (Some []) (Some ''text-1-'') False None),
      Some (VNode ''text'' (Some 3) None None None None False (Some ''hi'')),
      Some (VNode ''element'' (Some 1) (Some ''p'') (Some []) (Some []) (Some ''x'') False None),
      None,
      Some (VNode ''element'' (Some 1) (Some ''p'') (Some []) (Some []) (Some ''x'') False None)]"
  let ?real = "[Element 11 ''P'' [] [], Text 12 ''hi'', Element 13 ''P'' [] [], Comment 14 ''gap'', Element 15 ''P'' [] []]"
  let ?ops = "[UpdateOp 0
         \<lparr>vNode = VNode ''element'' (Some 1) (Some ''p'') (Some []) (Some []) (Some ''x'') False None,
          realNode = Some (Element 13 ''P'' [] []), index = 2, originalKey = ''x''\<rparr>
         (VNode ''element'' (Some 1) (Some ''p'') (Some []) (Some []) (Some ''x'') False None) None,
       UpdateOp 1
         \<lparr>vNode = VNode ''element'' (Some 1) (Some ''p'') (Some []) (Some []) (Some ''x'') False None,
          realNode = Some (Element 15 ''P'' [] []), index = 4, originalKey = ''x''\<rparr>
         (VNode ''element'' (Some 1) (Some ''p'') (Some []) (Some []) (Some ''x'') False None) None]"
  have keys: "map fst (buildChildMap ?children ?real) =
      [''text-1-'', ''text-1--dup1'', ''x'', ''x-dup1'']"
    by code_simp
  have fp: "firstPass (buildChildMap ?children ?real) [Some ?x, Some ?x] [] 0 [] [] =
      Inr ([''x'', ''x-dup1''], ?ops)"
    by code_simp
  from keyBasedPatch_child_map_keys_unique[of ?children ?real "[Some ?x, Some ?x]" "[]"
      "[''x'', ''x-dup1'']" ?ops] fp
  have "distinct (matchedOldIndexes ?ops)" by blast
  with keys fp show ?thesis by blast
qed

end
